theory Spec2Isabelle
  imports Main
begin

section \<open>Python values and the operations the orchestration code applies to them\<close>

text \<open>
  The code under study is \<^verbatim>\<open>async_research_mcp_final.py\<close> (the session/run orchestration
  core) together with the polling and start routines of \<^verbatim>\<open>async_research_mcp.py\<close>.
  Everything the code reads from the remote engine is a decoded JSON document, and the code
  branches on Python truthiness, on \<^verbatim>\<open>isinstance(_, dict)\<close> and on exceptions. The model
  therefore keeps decoded JSON as a datatype. Strings are byte strings (UTF-8); numbers are
  the integers (a non-integral JSON number behaves like a non-zero integer in every branch
  modelled here, only its rendering differs).
\<close>

datatype json =
    JNull
  | JBool bool
  | JNum int
  | JStr string
  | JArr "json list"
  | JObj "(string \<times> json) list"

text \<open>A raised exception, carrying \<^verbatim>\<open>str(e)\<close>.\<close>

datatype exn = Exn string

fun str_exn :: "exn \<Rightarrow> string" where
  "str_exn (Exn m) = m"

text \<open>\<^verbatim>\<open>bool(v)\<close>: what \<^verbatim>\<open>if v:\<close> tests.\<close>

fun truthy :: "json \<Rightarrow> bool" where
  "truthy JNull = False"
| "truthy (JBool b) = b"
| "truthy (JNum n) = (n \<noteq> 0)"
| "truthy (JStr s) = (s \<noteq> [])"
| "truthy (JArr xs) = (xs \<noteq> [])"
| "truthy (JObj kvs) = (kvs \<noteq> [])"

fun type_name :: "json \<Rightarrow> string" where
  "type_name JNull = ''NoneType''"
| "type_name (JBool b) = ''bool''"
| "type_name (JNum n) = ''int''"
| "type_name (JStr s) = ''str''"
| "type_name (JArr xs) = ''list''"
| "type_name (JObj kvs) = ''dict''"

subsection \<open>Rendering: \<^verbatim>\<open>str\<close> and \<^verbatim>\<open>repr\<close>\<close>

definition digit_char :: "nat \<Rightarrow> char" where
  "digit_char d = char_of (48 + d)"

function str_nat :: "nat \<Rightarrow> string" where
  "str_nat n = (if n < 10 then [digit_char n] else str_nat (n div 10) @ [digit_char (n mod 10)])"
  by pat_completeness auto
termination
  by (relation "measure id") auto

declare str_nat.simps [simp del]

definition str_int :: "int \<Rightarrow> string" where
  "str_int i = (if i < 0 then CHR ''-'' # str_nat (nat (- i)) else str_nat (nat i))"

text \<open>Lower-case hexadecimal digits; a number in a fixed count of them.\<close>

definition hex_char :: "nat \<Rightarrow> char" where
  "hex_char d = (if d < 10 then char_of (48 + d) else char_of (87 + d))"

fun hex_fixed :: "nat \<Rightarrow> nat \<Rightarrow> string" where
  "hex_fixed 0 n = []"
| "hex_fixed (Suc w) n = hex_fixed w (n div 16) @ [hex_char (n mod 16)]"

text \<open>The continuation bytes of UTF-8.\<close>

definition is_cont :: "char \<Rightarrow> bool" where
  "is_cont c = ((128::nat) \<le> of_char c \<and> of_char c < (192::nat))"

text \<open>
  The code point that a UTF-8 lead byte and its continuation bytes encode.
\<close>

definition codepoint :: "char \<Rightarrow> string \<Rightarrow> nat" where
  "codepoint c ks =
     foldl (\<lambda>a k. a * 64 + (of_char k - 128))
       (if (240::nat) \<le> of_char c then of_char c - 240
        else if (224::nat) \<le> of_char c then of_char c - 224
        else if (192::nat) \<le> of_char c then of_char c - 192
        else of_char c - 128)
       ks"

text \<open>
  The code points from 128 on that \<^verbatim>\<open>str.isprintable\<close> rejects, as inclusive ranges:
  the categories Cc, Cf, Cs, Co, Cn, Zl, Zp and Zs of the Unicode database 14.0 that
  CPython 3.11 carries.
\<close>

definition NONPRINTABLE :: "(nat \<times> nat) list" where
  "NONPRINTABLE =
    [(128, 160), (173, 173), (888, 889), (896, 899), (907, 907), (909, 909), (930, 930),
     (1328, 1328), (1367, 1368), (1419, 1420), (1424, 1424), (1480, 1487), (1515, 1518),
     (1525, 1541), (1564, 1564), (1757, 1757), (1806, 1807), (1867, 1868), (1970, 1983),
     (2043, 2044), (2094, 2095), (2111, 2111), (2140, 2141), (2143, 2143), (2155, 2159),
     (2191, 2199), (2274, 2274), (2436, 2436), (2445, 2446), (2449, 2450), (2473, 2473),
     (2481, 2481), (2483, 2485), (2490, 2491), (2501, 2502), (2505, 2506), (2511, 2518),
     (2520, 2523), (2526, 2526), (2532, 2533), (2559, 2560), (2564, 2564), (2571, 2574),
     (2577, 2578), (2601, 2601), (2609, 2609), (2612, 2612), (2615, 2615), (2618, 2619),
     (2621, 2621), (2627, 2630), (2633, 2634), (2638, 2640), (2642, 2648), (2653, 2653),
     (2655, 2661), (2679, 2688), (2692, 2692), (2702, 2702), (2706, 2706), (2729, 2729),
     (2737, 2737), (2740, 2740), (2746, 2747), (2758, 2758), (2762, 2762), (2766, 2767),
     (2769, 2783), (2788, 2789), (2802, 2808), (2816, 2816), (2820, 2820), (2829, 2830),
     (2833, 2834), (2857, 2857), (2865, 2865), (2868, 2868), (2874, 2875), (2885, 2886),
     (2889, 2890), (2894, 2900), (2904, 2907), (2910, 2910), (2916, 2917), (2936, 2945),
     (2948, 2948), (2955, 2957), (2961, 2961), (2966, 2968), (2971, 2971), (2973, 2973),
     (2976, 2978), (2981, 2983), (2987, 2989), (3002, 3005), (3011, 3013), (3017, 3017),
     (3022, 3023), (3025, 3030), (3032, 3045), (3067, 3071), (3085, 3085), (3089, 3089),
     (3113, 3113), (3130, 3131), (3141, 3141), (3145, 3145), (3150, 3156), (3159, 3159),
     (3163, 3164), (3166, 3167), (3172, 3173), (3184, 3190), (3213, 3213), (3217, 3217),
     (3241, 3241), (3252, 3252), (3258, 3259), (3269, 3269), (3273, 3273), (3278, 3284),
     (3287, 3292), (3295, 3295), (3300, 3301), (3312, 3312), (3315, 3327), (3341, 3341),
     (3345, 3345), (3397, 3397), (3401, 3401), (3408, 3411), (3428, 3429), (3456, 3456),
     (3460, 3460), (3479, 3481), (3506, 3506), (3516, 3516), (3518, 3519), (3527, 3529),
     (3531, 3534), (3541, 3541), (3543, 3543), (3552, 3557), (3568, 3569), (3573, 3584),
     (3643, 3646), (3676, 3712), (3715, 3715), (3717, 3717), (3723, 3723), (3748, 3748),
     (3750, 3750), (3774, 3775), (3781, 3781), (3783, 3783), (3790, 3791), (3802, 3803),
     (3808, 3839), (3912, 3912), (3949, 3952), (3992, 3992), (4029, 4029), (4045, 4045),
     (4059, 4095), (4294, 4294), (4296, 4300), (4302, 4303), (4681, 4681), (4686, 4687),
     (4695, 4695), (4697, 4697), (4702, 4703), (4745, 4745), (4750, 4751), (4785, 4785),
     (4790, 4791), (4799, 4799), (4801, 4801), (4806, 4807), (4823, 4823), (4881, 4881),
     (4886, 4887), (4955, 4956), (4989, 4991), (5018, 5023), (5110, 5111), (5118, 5119),
     (5760, 5760), (5789, 5791), (5881, 5887), (5910, 5918), (5943, 5951), (5972, 5983),
     (5997, 5997), (6001, 6001), (6004, 6015), (6110, 6111), (6122, 6127), (6138, 6143),
     (6158, 6158), (6170, 6175), (6265, 6271), (6315, 6319), (6390, 6399), (6431, 6431),
     (6444, 6447), (6460, 6463), (6465, 6467), (6510, 6511), (6517, 6527), (6572, 6575),
     (6602, 6607), (6619, 6621), (6684, 6685), (6751, 6751), (6781, 6782), (6794, 6799),
     (6810, 6815), (6830, 6831), (6863, 6911), (6989, 6991), (7039, 7039), (7156, 7163),
     (7224, 7226), (7242, 7244), (7305, 7311), (7355, 7356), (7368, 7375), (7419, 7423),
     (7958, 7959), (7966, 7967), (8006, 8007), (8014, 8015), (8024, 8024), (8026, 8026),
     (8028, 8028), (8030, 8030), (8062, 8063), (8117, 8117), (8133, 8133), (8148, 8149),
     (8156, 8156), (8176, 8177), (8181, 8181), (8191, 8207), (8232, 8239), (8287, 8303),
     (8306, 8307), (8335, 8335), (8349, 8351), (8385, 8399), (8433, 8447), (8588, 8591),
     (9255, 9279), (9291, 9311), (11124, 11125), (11158, 11158), (11508, 11512),
     (11558, 11558), (11560, 11564), (11566, 11567), (11624, 11630), (11633, 11646),
     (11671, 11679), (11687, 11687), (11695, 11695), (11703, 11703), (11711, 11711),
     (11719, 11719), (11727, 11727), (11735, 11735), (11743, 11743), (11870, 11903),
     (11930, 11930), (12020, 12031), (12246, 12271), (12284, 12288), (12352, 12352),
     (12439, 12440), (12544, 12548), (12592, 12592), (12687, 12687), (12772, 12783),
     (12831, 12831), (42125, 42127), (42183, 42191), (42540, 42559), (42744, 42751),
     (42955, 42959), (42962, 42962), (42964, 42964), (42970, 42993), (43053, 43055),
     (43066, 43071), (43128, 43135), (43206, 43213), (43226, 43231), (43348, 43358),
     (43389, 43391), (43470, 43470), (43482, 43485), (43519, 43519), (43575, 43583),
     (43598, 43599), (43610, 43611), (43715, 43738), (43767, 43776), (43783, 43784),
     (43791, 43792), (43799, 43807), (43815, 43815), (43823, 43823), (43884, 43887),
     (44014, 44015), (44026, 44031), (55204, 55215), (55239, 55242), (55292, 63743),
     (64110, 64111), (64218, 64255), (64263, 64274), (64280, 64284), (64311, 64311),
     (64317, 64317), (64319, 64319), (64322, 64322), (64325, 64325), (64451, 64466),
     (64912, 64913), (64968, 64974), (64976, 65007), (65050, 65055), (65107, 65107),
     (65127, 65127), (65132, 65135), (65141, 65141), (65277, 65280), (65471, 65473),
     (65480, 65481), (65488, 65489), (65496, 65497), (65501, 65503), (65511, 65511),
     (65519, 65531), (65534, 65535), (65548, 65548), (65575, 65575), (65595, 65595),
     (65598, 65598), (65614, 65615), (65630, 65663), (65787, 65791), (65795, 65798),
     (65844, 65846), (65935, 65935), (65949, 65951), (65953, 65999), (66046, 66175),
     (66205, 66207), (66257, 66271), (66300, 66303), (66340, 66348), (66379, 66383),
     (66427, 66431), (66462, 66462), (66500, 66503), (66518, 66559), (66718, 66719),
     (66730, 66735), (66772, 66775), (66812, 66815), (66856, 66863), (66916, 66926),
     (66939, 66939), (66955, 66955), (66963, 66963), (66966, 66966), (66978, 66978),
     (66994, 66994), (67002, 67002), (67005, 67071), (67383, 67391), (67414, 67423),
     (67432, 67455), (67462, 67462), (67505, 67505), (67515, 67583), (67590, 67591),
     (67593, 67593), (67638, 67638), (67641, 67643), (67645, 67646), (67670, 67670),
     (67743, 67750), (67760, 67807), (67827, 67827), (67830, 67834), (67868, 67870),
     (67898, 67902), (67904, 67967), (68024, 68027), (68048, 68049), (68100, 68100),
     (68103, 68107), (68116, 68116), (68120, 68120), (68150, 68151), (68155, 68158),
     (68169, 68175), (68185, 68191), (68256, 68287), (68327, 68330), (68343, 68351),
     (68406, 68408), (68438, 68439), (68467, 68471), (68498, 68504), (68509, 68520),
     (68528, 68607), (68681, 68735), (68787, 68799), (68851, 68857), (68904, 68911),
     (68922, 69215), (69247, 69247), (69290, 69290), (69294, 69295), (69298, 69375),
     (69416, 69423), (69466, 69487), (69514, 69551), (69580, 69599), (69623, 69631),
     (69710, 69713), (69750, 69758), (69821, 69821), (69827, 69839), (69865, 69871),
     (69882, 69887), (69941, 69941), (69960, 69967), (70007, 70015), (70112, 70112),
     (70133, 70143), (70162, 70162), (70207, 70271), (70279, 70279), (70281, 70281),
     (70286, 70286), (70302, 70302), (70314, 70319), (70379, 70383), (70394, 70399),
     (70404, 70404), (70413, 70414), (70417, 70418), (70441, 70441), (70449, 70449),
     (70452, 70452), (70458, 70458), (70469, 70470), (70473, 70474), (70478, 70479),
     (70481, 70486), (70488, 70492), (70500, 70501), (70509, 70511), (70517, 70655),
     (70748, 70748), (70754, 70783), (70856, 70863), (70874, 71039), (71094, 71095),
     (71134, 71167), (71237, 71247), (71258, 71263), (71277, 71295), (71354, 71359),
     (71370, 71423), (71451, 71452), (71468, 71471), (71495, 71679), (71740, 71839),
     (71923, 71934), (71943, 71944), (71946, 71947), (71956, 71956), (71959, 71959),
     (71990, 71990), (71993, 71994), (72007, 72015), (72026, 72095), (72104, 72105),
     (72152, 72153), (72165, 72191), (72264, 72271), (72355, 72367), (72441, 72703),
     (72713, 72713), (72759, 72759), (72774, 72783), (72813, 72815), (72848, 72849),
     (72872, 72872), (72887, 72959), (72967, 72967), (72970, 72970), (73015, 73017),
     (73019, 73019), (73022, 73022), (73032, 73039), (73050, 73055), (73062, 73062),
     (73065, 73065), (73103, 73103), (73106, 73106), (73113, 73119), (73130, 73439),
     (73465, 73647), (73649, 73663), (73714, 73726), (74650, 74751), (74863, 74863),
     (74869, 74879), (75076, 77711), (77811, 77823), (78895, 82943), (83527, 92159),
     (92729, 92735), (92767, 92767), (92778, 92781), (92863, 92863), (92874, 92879),
     (92910, 92911), (92918, 92927), (92998, 93007), (93018, 93018), (93026, 93026),
     (93048, 93052), (93072, 93759), (93851, 93951), (94027, 94030), (94088, 94094),
     (94112, 94175), (94181, 94191), (94194, 94207), (100344, 100351), (101590, 101631),
     (101641, 110575), (110580, 110580), (110588, 110588), (110591, 110591), (110883, 110927),
     (110931, 110947), (110952, 110959), (111356, 113663), (113771, 113775), (113789, 113791),
     (113801, 113807), (113818, 113819), (113824, 118527), (118574, 118575), (118599, 118607),
     (118724, 118783), (119030, 119039), (119079, 119080), (119155, 119162), (119275, 119295),
     (119366, 119519), (119540, 119551), (119639, 119647), (119673, 119807), (119893, 119893),
     (119965, 119965), (119968, 119969), (119971, 119972), (119975, 119976), (119981, 119981),
     (119994, 119994), (119996, 119996), (120004, 120004), (120070, 120070), (120075, 120076),
     (120085, 120085), (120093, 120093), (120122, 120122), (120127, 120127), (120133, 120133),
     (120135, 120137), (120145, 120145), (120486, 120487), (120780, 120781), (121484, 121498),
     (121504, 121504), (121520, 122623), (122655, 122879), (122887, 122887), (122905, 122906),
     (122914, 122914), (122917, 122917), (122923, 123135), (123181, 123183), (123198, 123199),
     (123210, 123213), (123216, 123535), (123567, 123583), (123642, 123646), (123648, 124895),
     (124903, 124903), (124908, 124908), (124911, 124911), (124927, 124927), (125125, 125126),
     (125143, 125183), (125260, 125263), (125274, 125277), (125280, 126064), (126133, 126208),
     (126270, 126463), (126468, 126468), (126496, 126496), (126499, 126499), (126501, 126502),
     (126504, 126504), (126515, 126515), (126520, 126520), (126522, 126522), (126524, 126529),
     (126531, 126534), (126536, 126536), (126538, 126538), (126540, 126540), (126544, 126544),
     (126547, 126547), (126549, 126550), (126552, 126552), (126554, 126554), (126556, 126556),
     (126558, 126558), (126560, 126560), (126563, 126563), (126565, 126566), (126571, 126571),
     (126579, 126579), (126584, 126584), (126589, 126589), (126591, 126591), (126602, 126602),
     (126620, 126624), (126628, 126628), (126634, 126634), (126652, 126703), (126706, 126975),
     (127020, 127023), (127124, 127135), (127151, 127152), (127168, 127168), (127184, 127184),
     (127222, 127231), (127406, 127461), (127491, 127503), (127548, 127551), (127561, 127567),
     (127570, 127583), (127590, 127743), (128728, 128732), (128749, 128751), (128765, 128767),
     (128884, 128895), (128985, 128991), (129004, 129007), (129009, 129023), (129036, 129039),
     (129096, 129103), (129114, 129119), (129160, 129167), (129198, 129199), (129202, 129279),
     (129620, 129631), (129646, 129647), (129653, 129655), (129661, 129663), (129671, 129679),
     (129709, 129711), (129723, 129727), (129734, 129743), (129754, 129759), (129768, 129775),
     (129783, 129791), (129939, 129939), (129995, 130031), (130042, 131071), (173792, 173823),
     (177977, 177983), (178206, 178207), (183970, 183983), (191457, 194559), (195102, 196607),
     (201547, 917759), (918000, 1114111)]"

definition printable :: "nat \<Rightarrow> bool" where
  "printable cp = (\<not> list_ex (\<lambda>r. fst r \<le> cp \<and> cp \<le> snd r) NONPRINTABLE)"

text \<open>The escape of a non-printable code point from 128 on.\<close>

definition escape_codepoint :: "nat \<Rightarrow> string" where
  "escape_codepoint cp =
     (if cp < 256 then [CHR 0x5C, CHR ''x''] @ hex_fixed 2 cp
      else if cp < 65536 then [CHR 0x5C, CHR ''u''] @ hex_fixed 4 cp
      else [CHR 0x5C, CHR ''U''] @ hex_fixed 8 cp)"

text \<open>
  \<^verbatim>\<open>repr\<close> of a string: single quotes unless the text holds a single quote and no double
  quote; the quote and the backslash are escaped, tab, newline and carriage return get their
  letter, other ASCII control characters the \<^verbatim>\<open>\xhh\<close> form. A character from 128 on is
  kept when it is printable and otherwise written as \<^verbatim>\<open>\xhh\<close>, \<^verbatim>\<open>\uhhhh\<close> or
  \<^verbatim>\<open>\Uhhhhhhhh\<close>, by the size of its code point.
\<close>

definition repr_char :: "char \<Rightarrow> char \<Rightarrow> string" where
  "repr_char q c =
     (if c = q \<or> c = CHR 0x5C then [CHR 0x5C, c]
      else if c = CHR 0x09 then [CHR 0x5C, CHR ''t'']
      else if c = CHR 0x0A then [CHR 0x5C, CHR ''n'']
      else if c = CHR 0x0D then [CHR 0x5C, CHR ''r'']
      else if of_char c < (32::nat) \<or> c = CHR 0x7F
        then [CHR 0x5C, CHR ''x''] @ hex_fixed 2 (of_char c)
      else [c])"

function repr_chars :: "char \<Rightarrow> string \<Rightarrow> string" where
  "repr_chars q [] = []"
| "repr_chars q (c # cs) =
     (if of_char c < (128::nat) then repr_char q c @ repr_chars q cs
      else
        (if printable (codepoint c (takeWhile is_cont cs)) then c # takeWhile is_cont cs
         else escape_codepoint (codepoint c (takeWhile is_cont cs)))
        @ repr_chars q (dropWhile is_cont cs))"
  by pat_completeness auto
termination
  by (relation "measure (\<lambda>(q, s). length s)")
    (auto simp: le_imp_less_Suc length_dropWhile_le)

definition repr_str :: "string \<Rightarrow> string" where
  "repr_str s =
     (let q = (if CHR 0x27 \<in> set s \<and> CHR 0x22 \<notin> set s then CHR 0x22 else CHR 0x27)
      in [q] @ repr_chars q s @ [q])"

fun join :: "string \<Rightarrow> string list \<Rightarrow> string" where
  "join sep [] = []"
| "join sep [x] = x"
| "join sep (x # y # ys) = x @ sep @ join sep (y # ys)"

fun py_repr :: "json \<Rightarrow> string" where
  "py_repr JNull = ''None''"
| "py_repr (JBool b) = (if b then ''True'' else ''False'')"
| "py_repr (JNum n) = str_int n"
| "py_repr (JStr s) = repr_str s"
| "py_repr (JArr xs) = ''['' @ join '', '' (map py_repr xs) @ '']''"
| "py_repr (JObj kvs) =
     ''{'' @ join '', '' (map (\<lambda>kv. repr_str (fst kv) @ '': '' @ py_repr (snd kv)) kvs) @ ''}''"

text \<open>\<^verbatim>\<open>str(v)\<close>, which is also what an f-string writes for \<^verbatim>\<open>{v}\<close>.\<close>

fun py_str :: "json \<Rightarrow> string" where
  "py_str (JStr s) = s"
| "py_str v = py_repr v"

subsection \<open>Substring tests and lower-casing\<close>

fun starts_with :: "string \<Rightarrow> string \<Rightarrow> bool" where
  "starts_with [] hay = True"
| "starts_with (n # ns) [] = False"
| "starts_with (n # ns) (h # hs) = (n = h \<and> starts_with ns hs)"

text \<open>\<^verbatim>\<open>needle in hay\<close> for two strings.\<close>

fun str_contains :: "string \<Rightarrow> string \<Rightarrow> bool" where
  "str_contains needle [] = (needle = [])"
| "str_contains needle (h # hs) = (starts_with needle (h # hs) \<or> str_contains needle hs)"

text \<open>
  \<^verbatim>\<open>s.lower()\<close> on the ASCII letters; characters from 128 on are left as they are. This
  is not Python's \<^verbatim>\<open>lower\<close> on those characters, but it agrees with it on the two tests
  made of the result (\<^verbatim>\<open>'clarify' in _\<close>, \<^verbatim>\<open>'specify' in _\<close>), the only use of it: the
  bytes of a character from 128 on never equal an ASCII letter, and the only such characters
  that Python lower-cases to an ASCII letter are U+212A (to \<^verbatim>\<open>k\<close>, a letter of neither
  word) and U+0130 (to \<^verbatim>\<open>i\<close> followed by U+0307, so never by \<^verbatim>\<open>f\<close>).
\<close>

definition lower_char :: "char \<Rightarrow> char" where
  "lower_char c =
     (if (65::nat) \<le> of_char c \<and> of_char c \<le> (90::nat) then char_of (of_char c + (32::nat)) else c)"

definition lower :: "string \<Rightarrow> string" where
  "lower s = map lower_char s"

subsection \<open>Subscripts and dictionary reads\<close>

text \<open>
  Each read returns the exception the interpreter would raise (message texts as CPython
  3.11 prints them). UTF-8 continuation bytes (\<open>is_cont\<close>) let \<^verbatim>\<open>s[0]\<close> and
  \<^verbatim>\<open>s[-1]\<close> take a whole character.
\<close>

definition not_subscriptable :: "json \<Rightarrow> exn" where
  "not_subscriptable v = Exn ([CHR 0x27] @ type_name v @ [CHR 0x27] @ '' object is not subscriptable'')"

text \<open>\<^verbatim>\<open>d.get(k, default)\<close>: only a dict has the method.\<close>

fun py_get :: "json \<Rightarrow> string \<Rightarrow> json \<Rightarrow> exn + json" where
  "py_get (JObj kvs) k dflt = Inr (case map_of kvs k of None \<Rightarrow> dflt | Some v \<Rightarrow> v)"
| "py_get v k dflt =
     Inl (Exn ([CHR 0x27] @ type_name v @ [CHR 0x27] @ '' object has no attribute '' @ repr_str ''get''))"

text \<open>\<^verbatim>\<open>v[k]\<close> for a string key \<open>k\<close>.\<close>

fun py_item :: "json \<Rightarrow> string \<Rightarrow> exn + json" where
  "py_item (JObj kvs) k = (case map_of kvs k of None \<Rightarrow> Inl (Exn (repr_str k)) | Some v \<Rightarrow> Inr v)"
| "py_item (JArr xs) k = Inl (Exn ''list indices must be integers or slices, not str'')"
| "py_item (JStr s) k = Inl (Exn (''string indices must be integers, not '' @ repr_str ''str''))"
| "py_item v k = Inl (not_subscriptable v)"

text \<open>\<^verbatim>\<open>v[0]\<close>.\<close>

fun py_first :: "json \<Rightarrow> exn + json" where
  "py_first (JArr []) = Inl (Exn ''list index out of range'')"
| "py_first (JArr (x # xs)) = Inr x"
| "py_first (JStr []) = Inl (Exn ''string index out of range'')"
| "py_first (JStr (c # cs)) = Inr (JStr (c # takeWhile is_cont cs))"
| "py_first (JObj kvs) = Inl (Exn ''0'')"
| "py_first v = Inl (not_subscriptable v)"

text \<open>\<^verbatim>\<open>v[-1]\<close>.\<close>

fun py_last :: "json \<Rightarrow> exn + json" where
  "py_last (JArr xs) = (if xs = [] then Inl (Exn ''list index out of range'') else Inr (last xs))"
| "py_last (JStr s) =
     (if s = [] then Inl (Exn ''string index out of range'')
      else Inr (JStr (rev (take (Suc (length (takeWhile is_cont (rev s)))) (rev s)))))"
| "py_last (JObj kvs) = Inl (Exn ''-1'')"
| "py_last v = Inl (not_subscriptable v)"

text \<open>\<^verbatim>\<open>'?' in v\<close>: substring of a string, element of a list, key of a dict.\<close>

fun py_in :: "string \<Rightarrow> json \<Rightarrow> exn + bool" where
  "py_in x (JStr s) = Inr (str_contains x s)"
| "py_in x (JArr xs) = Inr (JStr x \<in> set xs)"
| "py_in x (JObj kvs) = Inr (x \<in> set (map fst kvs))"
| "py_in x v = Inl (Exn (''argument of type '' @ [CHR 0x27] @ type_name v @ [CHR 0x27] @ '' is not iterable''))"

text \<open>\<^verbatim>\<open>v.lower()\<close>: only a string has the method.\<close>

fun py_lower :: "json \<Rightarrow> exn + string" where
  "py_lower (JStr s) = Inr (lower s)"
| "py_lower v =
     Inl (Exn ([CHR 0x27] @ type_name v @ [CHR 0x27] @ '' object has no attribute '' @ repr_str ''lower''))"

subsection \<open>Insertion-ordered dictionaries\<close>

text \<open>
  \<^verbatim>\<open>active_sessions\<close> is a Python dict iterated in insertion order: an association list with
  one entry per key.
\<close>

definition dict_has :: "('k \<times> 'v) list \<Rightarrow> 'k \<Rightarrow> bool" where
  "dict_has d k = (map_of d k \<noteq> None)"

definition dict_set :: "('k \<times> 'v) list \<Rightarrow> 'k \<Rightarrow> 'v \<Rightarrow> ('k \<times> 'v) list" where
  "dict_set d k v =
     (if dict_has d k then map (\<lambda>kv. if fst kv = k then (k, v) else kv) d else d @ [(k, v)])"

definition dict_del :: "('k \<times> 'v) list \<Rightarrow> 'k \<Rightarrow> ('k \<times> 'v) list" where
  "dict_del d k = filter (\<lambda>kv. fst kv \<noteq> k) d"

section \<open>The remote engine and the process state\<close>

text \<open>
  A request is its method, URL and JSON payload (the static bearer header is left out). A
  response is its status code, its text and what \<^verbatim>\<open>response.json()\<close> gives (an exception
  when the body is not JSON).
\<close>

datatype request = GET string | POST string json

datatype response = Response (status_code: nat) (resp_text: string) (resp_json: "exn + json")

text \<open>
  The engine is an oracle: the \<open>n\<close>-th request of the process gets either an exception
  (connection failure) or a response, after some latency in time units.
\<close>

type_synonym engine = "nat \<Rightarrow> request \<Rightarrow> (exn + response) \<times> nat"

text \<open>
  A session record is the dict stored in \<^verbatim>\<open>active_sessions\<close>. The key \<^verbatim>\<open>status\<close> exists
  only in \<^verbatim>\<open>async_research_mcp.py\<close>; it is absent (\<open>None\<close>) in
  \<^verbatim>\<open>async_research_mcp_final.py\<close>.
\<close>

record session =
  thread_id :: json
  run_id :: json
  question :: string
  status :: "string option"
  started_at :: int

text \<open>
  The module's globals, the clock read by \<^verbatim>\<open>time.time()\<close>, and the log of the requests
  issued so far.
\<close>

record world =
  active_sessions :: "(string \<times> session) list"
  assistant_id :: json
  clock :: int
  calls :: "request list"

definition http :: "engine \<Rightarrow> request \<Rightarrow> world \<Rightarrow> (exn + response) \<times> world" where
  "http eng rq s =
     (case eng (length (calls s)) rq of
        (r, d) \<Rightarrow> (r, s\<lparr>clock := clock s + int d, calls := calls s @ [rq]\<rparr>))"

text \<open>\<^verbatim>\<open>await asyncio.sleep(2)\<close>, seen from the task that sleeps.\<close>

definition POLL_INTERVAL :: int where
  "POLL_INTERVAL = 2"

definition sleep :: "int \<Rightarrow> world \<Rightarrow> world" where
  "sleep d s = s\<lparr>clock := clock s + d\<rparr>"

definition LANGGRAPH_API_URL :: string where
  "LANGGRAPH_API_URL = ''http://localhost:2024''"

definition run_url :: "json \<Rightarrow> json \<Rightarrow> string" where
  "run_url tid rid = LANGGRAPH_API_URL @ ''/threads/'' @ py_str tid @ ''/runs/'' @ py_str rid"

definition state_url :: "json \<Rightarrow> string" where
  "state_url tid = LANGGRAPH_API_URL @ ''/threads/'' @ py_str tid @ ''/state''"

definition runs_url :: "json \<Rightarrow> string" where
  "runs_url tid = LANGGRAPH_API_URL @ ''/threads/'' @ py_str tid @ ''/runs''"

section \<open>Assistant Resolver and thread creation\<close>

text \<open>
  Lines 30--34 of \<^verbatim>\<open>get_assistant\<close>: what the search response yields. \<open>Inl\<close> is an
  exception (caught by the bare \<^verbatim>\<open>except\<close>), \<open>Inr (Some a)\<close> the identifier assigned to the
  global and returned, \<open>Inr None\<close> falling through to creation.
\<close>

definition found_assistant :: "response \<Rightarrow> exn + json option" where
  "found_assistant r =
     (if status_code r = 200 then
        (case resp_json r of
           Inl e \<Rightarrow> Inl e
         | Inr assistants \<Rightarrow>
             if truthy assistants then
               (case py_first assistants of
                  Inl e \<Rightarrow> Inl e
                | Inr a0 \<Rightarrow> (case py_item a0 ''assistant_id'' of Inl e \<Rightarrow> Inl e | Inr a \<Rightarrow> Inr (Some a)))
             else Inr None)
      else Inr None)"

text \<open>Lines 39--41: what the creation response yields.\<close>

definition created_assistant :: "response \<Rightarrow> exn + json option" where
  "created_assistant r =
     (if status_code r \<in> set [200, 201] then
        (case resp_json r of
           Inl e \<Rightarrow> Inl e
         | Inr body \<Rightarrow> (case py_item body ''assistant_id'' of Inl e \<Rightarrow> Inl e | Inr a \<Rightarrow> Inr (Some a)))
      else Inr None)"

definition create_payload :: json where
  "create_payload = JObj [(''graph_id'', JStr ''Deep Researcher''), (''name'', JStr ''Research Assistant'')]"

text \<open>\<^verbatim>\<open>get_assistant()\<close>; the result \<open>JNull\<close> is Python's \<^verbatim>\<open>None\<close>.\<close>

definition get_assistant :: "engine \<Rightarrow> world \<Rightarrow> json \<times> world" where
  "get_assistant eng s =
     (if truthy (assistant_id s) then (assistant_id s, s)
      else
        (case http eng (POST (LANGGRAPH_API_URL @ ''/assistants/search'') (JObj [])) s of
           (Inl e, s1) \<Rightarrow> (JNull, s1)
         | (Inr r, s1) \<Rightarrow>
             (case found_assistant r of
                Inl e \<Rightarrow> (JNull, s1)
              | Inr (Some a) \<Rightarrow> (a, s1\<lparr>assistant_id := a\<rparr>)
              | Inr None \<Rightarrow>
                  (case http eng (POST (LANGGRAPH_API_URL @ ''/assistants'') create_payload) s1 of
                     (Inl e, s2) \<Rightarrow> (JNull, s2)
                   | (Inr r2, s2) \<Rightarrow>
                       (case created_assistant r2 of
                          Inl e \<Rightarrow> (JNull, s2)
                        | Inr (Some a) \<Rightarrow> (a, s2\<lparr>assistant_id := a\<rparr>)
                        | Inr None \<Rightarrow> (JNull, s2))))))"

text \<open>\<^verbatim>\<open>create_thread()\<close>.\<close>

definition create_thread :: "engine \<Rightarrow> world \<Rightarrow> json \<times> world" where
  "create_thread eng s =
     (case http eng (POST (LANGGRAPH_API_URL @ ''/threads'') (JObj [])) s of
        (Inl e, s1) \<Rightarrow> (JNull, s1)
      | (Inr r, s1) \<Rightarrow>
          if status_code r \<in> set [200, 201] then
            (case resp_json r of
               Inl e \<Rightarrow> (JNull, s1)
             | Inr body \<Rightarrow> (case py_item body ''thread_id'' of Inl e \<Rightarrow> (JNull, s1) | Inr t \<Rightarrow> (t, s1)))
          else (JNull, s1))"

section \<open>Result Extractor\<close>

definition try_bind :: "exn + 'a \<Rightarrow> ('a \<Rightarrow> exn + 'b) \<Rightarrow> exn + 'b" where
  "try_bind x f = (case x of Inl e \<Rightarrow> Inl e | Inr v \<Rightarrow> f v)"

text \<open>
  The three shapes of the last message (lines 106--111, again 280--285). A decoded JSON
  value never has an attribute \<^verbatim>\<open>content\<close>, so the \<^verbatim>\<open>hasattr\<close> branch is never taken:
  a dict gives \<^verbatim>\<open>last_message.get('content', '')\<close>, anything else \<^verbatim>\<open>str(last_message)\<close>.
\<close>

definition message_content :: "json \<Rightarrow> json" where
  "message_content m =
     (case m of
        JObj kvs \<Rightarrow> (case map_of kvs ''content'' of None \<Rightarrow> JStr [] | Some c \<Rightarrow> c)
      | _ \<Rightarrow> JStr (py_str m))"

text \<open>
  The condition of lines 113 and 287:
  \<^verbatim>\<open>content and ('?' in content or 'clarify' in content.lower() or 'specify' in content.lower())\<close>,
  with Python's left-to-right short-circuit evaluation.
\<close>

definition looks_like_question :: "json \<Rightarrow> exn + bool" where
  "looks_like_question content =
     (if truthy content then
        try_bind (py_in ''?'' content) (\<lambda>q.
          if q then Inr True
          else try_bind (py_lower content) (\<lambda>l.
            Inr (str_contains ''clarify'' l \<or> str_contains ''specify'' l)))
      else Inr False)"

datatype extraction = HasReport json | NeedsClarification json | NoUsableResult

text \<open>
  Lines 87--113 of \<^verbatim>\<open>wait_for_research_completion\<close>, repeated at lines 265--287 of
  \<^verbatim>\<open>get_research_by_thread_id\<close>: from the decoded thread state to the branch taken.
\<close>

definition extract_result :: "json \<Rightarrow> exn + extraction" where
  "extract_result state =
     try_bind (py_get state ''values'' (JObj [])) (\<lambda>values.
     try_bind (py_get values ''final_report'' JNull) (\<lambda>final_report.
       if truthy final_report then Inr (HasReport final_report)
       else
         try_bind (py_get values ''messages'' (JArr [])) (\<lambda>messages.
           if truthy messages then
             try_bind (py_last messages) (\<lambda>last_message.
             try_bind (looks_like_question (message_content last_message)) (\<lambda>q.
               if q then Inr (NeedsClarification (message_content last_message))
               else Inr NoUsableResult))
           else Inr NoUsableResult)))"

section \<open>Outcomes and their texts\<close>

text \<open>
  One constructor per \<^verbatim>\<open>return\<close> statement of the tools; \<open>render\<close> is the string the
  statement builds. The functions below return the outcome, the caller of the tool sees
  \<open>render\<close> of it.
\<close>

datatype outcome =
    ReportComplete json
  | ClarificationNeeded json json
  | NoResultsFound json
  | RunFailed json json
  | ErrorDuringResearch exn json
  | TimedOut int json
  | ServerUnavailable
  | NoAssistant
  | NoThread
  | StartFailed string
  | ResearchError exn json
  | ThreadInaccessible string
  | RecoveredClarification json string
  | StillInProgress string
  | NothingFound string
  | RetrieveError exn
  | Started string
  | StartError exn

definition NL :: string where "NL = [CHR 0x0A]"
definition SQ :: string where "SQ = [CHR 0x27]"
definition CROSS :: string where "CROSS = [CHR 0xE2, CHR 0x9D, CHR 0x8C]"
definition THINKING :: string where "THINKING = [CHR 0xF0, CHR 0x9F, CHR 0xA4, CHR 0x94]"
definition ALARM :: string where "ALARM = [CHR 0xE2, CHR 0x8F, CHR 0xB0]"
definition QUESTION_MARK :: string where "QUESTION_MARK = [CHR 0xE2, CHR 0x9D, CHR 0x93]"
definition MAGNIFIER :: string where "MAGNIFIER = [CHR 0xF0, CHR 0x9F, CHR 0x94, CHR 0x8D]"
definition CLIPBOARD :: string where "CLIPBOARD = [CHR 0xF0, CHR 0x9F, CHR 0x93, CHR 0x8B]"
definition CHECK_MARK :: string where "CHECK_MARK = [CHR 0xE2, CHR 0x9C, CHR 0x85]"
definition BULLET :: string where "BULLET = [CHR 0xE2, CHR 0x80, CHR 0xA2]"

primrec render :: "outcome \<Rightarrow> string" where
  "render (ReportComplete final_report) =
     ''RESEARCH_REPORT_COMPLETE'' @ NL @ NL @ py_str final_report @ NL @ NL @
     ''[INSTRUCTION: Present the above research report to the user exactly as written, '' @
     ''without summarizing, modifying, or adding commentary. '' @
     ''This is the complete, final research report.]''"
| "render (ClarificationNeeded content tid) =
     THINKING @ '' **Clarification Needed**'' @ NL @ NL @ py_str content @ NL @ NL @
     ''**Thread ID:** '' @ py_str tid @ NL @ NL @
     ''*Use `continue_research_with_clarification()` to provide your answer.*''"
| "render (NoResultsFound tid) =
     CROSS @ '' Research completed but no results found. Thread ID: '' @ py_str tid"
| "render (RunFailed st tid) =
     CROSS @ '' Research failed with status: '' @ py_str st @ ''. Thread ID: '' @ py_str tid @
     '' (you can try to recover results later)''"
| "render (ErrorDuringResearch e tid) =
     CROSS @ '' Error during research: '' @ str_exn e @ ''. Thread ID: '' @ py_str tid"
| "render (TimedOut timeout tid) =
     ALARM @ '' Research timed out after '' @ str_int timeout @ '' seconds. Thread ID: '' @
     py_str tid @ NL @ NL @
     ''The research may still be running. Use `get_research_by_thread_id('' @ SQ @ py_str tid @
     SQ @ '')` to check for results later.''"
| "render ServerUnavailable = CROSS @ '' Deep Research server not available at http://localhost:2024''"
| "render NoAssistant = CROSS @ '' Could not get research assistant''"
| "render NoThread = CROSS @ '' Could not create research thread''"
| "render (StartFailed txt) = CROSS @ '' Failed to start research: '' @ txt"
| "render (ResearchError e tid) =
     CROSS @ '' Research error: '' @ str_exn e @ ''. Thread ID: '' @ py_str tid"
| "render (ThreadInaccessible tid) =
     CROSS @ '' Could not access thread '' @ tid @ ''. It may not exist or may have expired.''"
| "render (RecoveredClarification content tid) =
     THINKING @ '' **Clarification Needed**'' @ NL @ NL @ py_str content @ NL @ NL @
     ''*Use `continue_research_with_clarification()` with thread_id='' @ SQ @ tid @ SQ @
     '' to provide your answer.*''"
| "render (StillInProgress tid) =
     MAGNIFIER @ '' Research is still in progress for thread '' @ tid @ ''. Please check again later.''"
| "render (NothingFound tid) =
     QUESTION_MARK @ '' No results found for thread '' @ tid @
     ''. Research may not be complete or may have encountered an issue.''"
| "render (RetrieveError e) = CROSS @ '' Error retrieving results: '' @ str_exn e"
| "render (Started sid) =
     CHECK_MARK @ '' Research started! Session ID: **'' @ sid @ ''**'' @ NL @ NL @
     ''Use `check_research_progress('' @ SQ @ sid @ SQ @ '')` to monitor progress.''"
| "render (StartError e) = CROSS @ '' Research error: '' @ str_exn e"

section \<open>Completion Waiter\<close>

text \<open>
  Lines 78--79 (and 65--66 of \<^verbatim>\<open>poll_for_completion\<close>):
  \<^verbatim>\<open>response.json().get("status")\<close>.
\<close>

definition run_status :: "response \<Rightarrow> exn + json" where
  "run_status response = try_bind (resp_json response) (\<lambda>run_data. py_get run_data ''status'' JNull)"

text \<open>The default of the \<^verbatim>\<open>timeout\<close> and \<^verbatim>\<open>max_wait\<close> parameters.\<close>

definition DEFAULT_TIMEOUT :: int where
  "DEFAULT_TIMEOUT = 720"

text \<open>
  One pass through the \<^verbatim>\<open>try\<close> block of the loop of \<^verbatim>\<open>wait_for_research_completion\<close>
  (lines 72--125). \<open>Some out\<close> is a \<^verbatim>\<open>return\<close>; \<open>None\<close> means the pass reached
  \<^verbatim>\<open>await asyncio.sleep(2)\<close>. Every exception of the block lands in the handler of line 124.
\<close>

definition poll_once :: "engine \<Rightarrow> json \<Rightarrow> json \<Rightarrow> string \<Rightarrow> world \<Rightarrow> outcome option \<times> world" where
  "poll_once eng tid rid sid s =
     (case http eng (GET (run_url tid rid)) s of
        (Inl e, s1) \<Rightarrow> (Some (ErrorDuringResearch e tid), s1)
      | (Inr response, s1) \<Rightarrow>
          if status_code response = 200 then
            (case run_status response of
               Inl e \<Rightarrow> (Some (ErrorDuringResearch e tid), s1)
             | Inr st \<Rightarrow>
                 if st = JStr ''success'' then
                   (case http eng (GET (state_url tid)) s1 of
                      (Inl e, s2) \<Rightarrow> (Some (ErrorDuringResearch e tid), s2)
                    | (Inr state_response, s2) \<Rightarrow>
                        if status_code state_response = 200 then
                          (case try_bind (resp_json state_response) extract_result of
                             Inl e \<Rightarrow> (Some (ErrorDuringResearch e tid), s2)
                           | Inr (HasReport final_report) \<Rightarrow>
                               (Some (ReportComplete final_report),
                                if dict_has (active_sessions s2) sid
                                then s2\<lparr>active_sessions := dict_del (active_sessions s2) sid\<rparr>
                                else s2)
                           | Inr (NeedsClarification content) \<Rightarrow>
                               (Some (ClarificationNeeded content tid), s2)
                           | Inr NoUsableResult \<Rightarrow> (Some (NoResultsFound tid), s2))
                        else (None, s2))
                 else if st \<in> set [JStr ''error'', JStr ''timeout'', JStr ''interrupted'']
                   then (Some (RunFailed st tid), s1)
                 else (None, s1))
          else (None, s1))"

lemma http_clock: "http eng rq s = (r, s') \<Longrightarrow> clock s \<le> clock s'"
  by (auto simp: http_def split: prod.splits)

lemma poll_once_clock: "poll_once eng tid rid sid s = (r, s') \<Longrightarrow> clock s \<le> clock s'"
  unfolding poll_once_def
  by (auto split: prod.splits sum.splits if_splits extraction.splits dest!: http_clock)

text \<open>
  The loop \<^verbatim>\<open>while time.time() - start_time < timeout\<close>: a pass that returns ends it, a
  pass that does not is followed by the sleep of the poll interval.
\<close>

function wait_loop ::
  "engine \<Rightarrow> json \<Rightarrow> json \<Rightarrow> string \<Rightarrow> int \<Rightarrow> int \<Rightarrow> world \<Rightarrow> outcome \<times> world" where
  "wait_loop eng tid rid sid timeout start s =
     (if clock s - start < timeout then
        (case poll_once eng tid rid sid s of
           (Some out, s') \<Rightarrow> (out, s')
         | (None, s') \<Rightarrow> wait_loop eng tid rid sid timeout start (sleep POLL_INTERVAL s'))
      else (TimedOut timeout tid, s))"
  by pat_completeness auto
termination
  by (relation "measure (\<lambda>(eng, tid, rid, sid, timeout, start, s). nat (start + timeout - clock s))")
    (auto simp: sleep_def POLL_INTERVAL_def dest!: poll_once_clock [OF sym])

declare wait_loop.simps [simp del]

text \<open>\<^verbatim>\<open>wait_for_research_completion(thread_id, run_id, session_id, timeout)\<close>.\<close>

definition wait_for_research_completion ::
  "engine \<Rightarrow> json \<Rightarrow> json \<Rightarrow> string \<Rightarrow> int \<Rightarrow> world \<Rightarrow> outcome \<times> world" where
  "wait_for_research_completion eng tid rid sid timeout s =
     wait_loop eng tid rid sid timeout (clock s) s"

section \<open>The tools of \<^verbatim>\<open>async_research_mcp_final.py\<close>\<close>

definition run_payload :: "json \<Rightarrow> string \<Rightarrow> bool \<Rightarrow> json" where
  "run_payload assistant q allow_clarification =
     JObj [(''assistant_id'', assistant),
           (''input'', JObj [(''messages'', JArr [JObj [(''role'', JStr ''user''), (''content'', JStr q)]])]),
           (''config'', JObj [(''configurable'', JObj [(''allow_clarification'', JBool allow_clarification)])])]"

text \<open>
  \<^verbatim>\<open>research_question(question, allow_clarification, timeout)\<close>. The argument \<open>sid\<close> is
  the value of \<^verbatim>\<open>str(uuid.uuid4())[:8]\<close>, drawn by the environment.
\<close>

definition research_question ::
  "engine \<Rightarrow> string \<Rightarrow> string \<Rightarrow> bool \<Rightarrow> int \<Rightarrow> world \<Rightarrow> outcome \<times> world" where
  "research_question eng sid q allow_clarification timeout s =
     (case http eng (GET (LANGGRAPH_API_URL @ ''/docs'')) s of
        (Inl e, s0) \<Rightarrow> (ServerUnavailable, s0)
      | (Inr docs, s0) \<Rightarrow>
          (case get_assistant eng s0 of
             (assistant, s1) \<Rightarrow>
               if \<not> truthy assistant then (NoAssistant, s1)
               else
                 (case create_thread eng s1 of
                    (tid, s2) \<Rightarrow>
                      if \<not> truthy tid then (NoThread, s2)
                      else
                        (case http eng (POST (runs_url tid) (run_payload assistant q allow_clarification)) s2 of
                           (Inl e, s3) \<Rightarrow> (ResearchError e tid, s3)
                         | (Inr response, s3) \<Rightarrow>
                             if status_code response \<noteq> 200 then (StartFailed (resp_text response), s3)
                             else
                               (case try_bind (resp_json response) (\<lambda>body. py_item body ''run_id'') of
                                  Inl e \<Rightarrow> (ResearchError e tid, s3)
                                | Inr rid \<Rightarrow>
                                    wait_for_research_completion eng tid rid sid timeout
                                      (s3\<lparr>active_sessions :=
                                            dict_set (active_sessions s3) sid
                                              \<lparr>thread_id = tid, run_id = rid, question = q,
                                               status = None, started_at = clock s3\<rparr>\<rparr>))))))"

text \<open>\<^verbatim>\<open>get_research_by_thread_id(thread_id)\<close>.\<close>

definition get_research_by_thread_id :: "engine \<Rightarrow> string \<Rightarrow> world \<Rightarrow> outcome \<times> world" where
  "get_research_by_thread_id eng tid s =
     (case http eng (GET (state_url (JStr tid))) s of
        (Inl e, s1) \<Rightarrow> (RetrieveError e, s1)
      | (Inr state_response, s1) \<Rightarrow>
          if status_code state_response \<noteq> 200 then (ThreadInaccessible tid, s1)
          else
            (case resp_json state_response of
               Inl e \<Rightarrow> (RetrieveError e, s1)
             | Inr state \<Rightarrow>
                 (case extract_result state of
                    Inl e \<Rightarrow> (RetrieveError e, s1)
                  | Inr (HasReport final_report) \<Rightarrow> (ReportComplete final_report, s1)
                  | Inr (NeedsClarification content) \<Rightarrow> (RecoveredClarification content tid, s1)
                  | Inr NoUsableResult \<Rightarrow>
                      (case py_get state ''status'' (JStr ''unknown'') of
                         Inl e \<Rightarrow> (RetrieveError e, s1)
                       | Inr thread_status \<Rightarrow>
                           if thread_status = JStr ''busy'' then (StillInProgress tid, s1)
                           else (NothingFound tid, s1)))))"

text \<open>\<^verbatim>\<open>question[:80]\<close> counts characters, not bytes.\<close>

fun take_chars :: "nat \<Rightarrow> string \<Rightarrow> string" where
  "take_chars 0 s = []"
| "take_chars (Suc n) [] = []"
| "take_chars (Suc n) (c # cs) = c # takeWhile is_cont cs @ take_chars n (dropWhile is_cont cs)"

definition session_entry :: "int \<Rightarrow> string \<times> session \<Rightarrow> string" where
  "session_entry now kv =
     BULLET @ '' **Session '' @ fst kv @ ''**'' @ NL @
     ''  Thread ID: '' @ py_str (thread_id (snd kv)) @ NL @
     ''  Question: '' @ take_chars 80 (question (snd kv)) @ ''...'' @ NL @
     ''  Running for: '' @ str_int (now - started_at (snd kv)) @ '' seconds'' @ NL @ NL"

text \<open>\<^verbatim>\<open>list_active_sessions()\<close>.\<close>

definition list_active_sessions :: "world \<Rightarrow> string" where
  "list_active_sessions s =
     (if active_sessions s = [] then ''No active research sessions.''
      else CLIPBOARD @ '' **Active Research Sessions:**'' @ NL @ NL @
           concat (map (session_entry (clock s)) (active_sessions s)))"

section \<open>Polling and starting in \<^verbatim>\<open>async_research_mcp.py\<close>\<close>

text \<open>The dict returned by \<^verbatim>\<open>poll_for_completion\<close>, by its \<^verbatim>\<open>status\<close> key.\<close>

datatype poll_result = PollSuccess json | PollError string | PollTimeout

definition poll_step :: "engine \<Rightarrow> string \<Rightarrow> string \<Rightarrow> world \<Rightarrow> poll_result option \<times> world" where
  "poll_step eng tid rid s =
     (case http eng (GET (run_url (JStr tid) (JStr rid))) s of
        (Inl e, s1) \<Rightarrow> (Some (PollError (''Polling error: '' @ str_exn e)), s1)
      | (Inr response, s1) \<Rightarrow>
          if status_code response = 200 then
            (case run_status response of
               Inl e \<Rightarrow> (Some (PollError (''Polling error: '' @ str_exn e)), s1)
             | Inr st \<Rightarrow>
                 if st = JStr ''success'' then
                   (case http eng (GET (state_url (JStr tid))) s1 of
                      (Inl e, s2) \<Rightarrow> (Some (PollError (''Polling error: '' @ str_exn e)), s2)
                    | (Inr state_response, s2) \<Rightarrow>
                        if status_code state_response = 200 then
                          (case resp_json state_response of
                             Inl e \<Rightarrow> (Some (PollError (''Polling error: '' @ str_exn e)), s2)
                           | Inr d \<Rightarrow> (Some (PollSuccess d), s2))
                        else (None, s2))
                 else if st \<in> set [JStr ''error'', JStr ''timeout'', JStr ''interrupted'']
                   then (Some (PollError (''Research failed with status: '' @ py_str st)), s1)
                 else (None, s1))
          else (None, s1))"

lemma poll_step_clock: "poll_step eng tid rid s = (r, s') \<Longrightarrow> clock s \<le> clock s'"
  unfolding poll_step_def
  by (auto split: prod.splits sum.splits if_splits dest!: http_clock)

function poll_loop ::
  "engine \<Rightarrow> string \<Rightarrow> string \<Rightarrow> int \<Rightarrow> int \<Rightarrow> world \<Rightarrow> poll_result \<times> world" where
  "poll_loop eng tid rid max_wait start s =
     (if clock s - start < max_wait then
        (case poll_step eng tid rid s of
           (Some res, s') \<Rightarrow> (res, s')
         | (None, s') \<Rightarrow> poll_loop eng tid rid max_wait start (sleep POLL_INTERVAL s'))
      else (PollTimeout, s))"
  by pat_completeness auto
termination
  by (relation "measure (\<lambda>(eng, tid, rid, max_wait, start, s). nat (start + max_wait - clock s))")
    (auto simp: sleep_def POLL_INTERVAL_def dest!: poll_step_clock [OF sym])

declare poll_loop.simps [simp del]

text \<open>\<^verbatim>\<open>poll_for_completion(thread_id, run_id, max_wait)\<close>.\<close>

definition poll_for_completion ::
  "engine \<Rightarrow> string \<Rightarrow> string \<Rightarrow> int \<Rightarrow> world \<Rightarrow> poll_result \<times> world" where
  "poll_for_completion eng tid rid max_wait s = poll_loop eng tid rid max_wait (clock s) s"


section \<open>What a status fetch can answer\<close>

text \<open>
  The terminal run statuses, and the three kinds of reply to the status fetch of line 74
  as the loop tells them apart: a reply that reports a terminal status, a reply that makes
  the pass fail (the request raises, or the body of a 200 answer cannot be read), and a reply
  after which the run counts as still running (any other status, or an answer other than 200).
\<close>

definition terminal_status :: "json \<Rightarrow> bool" where
  "terminal_status st = (st \<in> set [JStr ''success'', JStr ''error'', JStr ''timeout'', JStr ''interrupted''])"

definition reports_terminal :: "exn + response \<Rightarrow> bool" where
  "reports_terminal reply =
     (case reply of
        Inl e \<Rightarrow> False
      | Inr response \<Rightarrow>
          status_code response = 200 \<and>
          (case run_status response of Inl e \<Rightarrow> False | Inr st \<Rightarrow> terminal_status st))"

definition poll_failure :: "exn + response \<Rightarrow> exn option" where
  "poll_failure reply =
     (case reply of
        Inl e \<Rightarrow> Some e
      | Inr response \<Rightarrow>
          if status_code response = 200
          then (case run_status response of Inl e \<Rightarrow> Some e | Inr st \<Rightarrow> None)
          else None)"

definition still_running :: "exn + response \<Rightarrow> bool" where
  "still_running reply = (poll_failure reply = None \<and> \<not> reports_terminal reply)"

section \<open>Thread states and how they are read\<close>

text \<open>
  The final report and the message history of a thread state
  (\<^verbatim>\<open>state["values"]["final_report"]\<close>, \<^verbatim>\<open>state["values"]["messages"]\<close>); the thread state
  that a pass of the loop reads in its success branch (lines 81--86), if the engine lets it
  get there; the thread state that \<^verbatim>\<open>get_research_by_thread_id\<close> reads (lines 259--264);
  and the heuristic for a clarification request, on a text, as the design states it.
\<close>

definition final_report_of :: "json \<Rightarrow> json option" where
  "final_report_of state =
     (case state of
        JObj kvs \<Rightarrow> (case map_of kvs ''values'' of Some (JObj vs) \<Rightarrow> map_of vs ''final_report'' | _ \<Rightarrow> None)
      | _ \<Rightarrow> None)"

definition messages_of :: "json \<Rightarrow> json option" where
  "messages_of state =
     (case state of
        JObj kvs \<Rightarrow> (case map_of kvs ''values'' of Some (JObj vs) \<Rightarrow> map_of vs ''messages'' | _ \<Rightarrow> None)
      | _ \<Rightarrow> None)"

definition polled_state :: "engine \<Rightarrow> world \<Rightarrow> json \<Rightarrow> json \<Rightarrow> json option" where
  "polled_state eng s tid rid =
     (case fst (eng (length (calls s)) (GET (run_url tid rid))) of
        Inl e \<Rightarrow> None
      | Inr response \<Rightarrow>
          if status_code response = 200 \<and> run_status response = Inr (JStr ''success'') then
            (case fst (eng (Suc (length (calls s))) (GET (state_url tid))) of
               Inl e \<Rightarrow> None
             | Inr state_response \<Rightarrow>
                 if status_code state_response = 200
                 then (case resp_json state_response of Inl e \<Rightarrow> None | Inr state \<Rightarrow> Some state)
                 else None)
          else None)"

definition recovered_state :: "engine \<Rightarrow> world \<Rightarrow> string \<Rightarrow> json option" where
  "recovered_state eng s tid =
     (case fst (eng (length (calls s)) (GET (state_url (JStr tid)))) of
        Inl e \<Rightarrow> None
      | Inr state_response \<Rightarrow>
          if status_code state_response = 200
          then (case resp_json state_response of Inl e \<Rightarrow> None | Inr state \<Rightarrow> Some state)
          else None)"

definition clarification_heuristic :: "string \<Rightarrow> bool" where
  "clarification_heuristic txt =
     (txt \<noteq> [] \<and>
      (str_contains ''?'' txt \<or> str_contains ''clarify'' (lower txt) \<or> str_contains ''specify'' (lower txt)))"

text \<open>\<^verbatim>\<open>state.get("status", "unknown")\<close> of a thread state that is a dict (line 291).\<close>

definition thread_status_of :: "json \<Rightarrow> json" where
  "thread_status_of state =
     (case state of
        JObj kvs \<Rightarrow> (case map_of kvs ''status'' of None \<Rightarrow> JStr ''unknown'' | Some v \<Rightarrow> v)
      | _ \<Rightarrow> JStr ''unknown'')"


section \<open>Scenarios\<close>

text \<open>
  Concrete worlds and engines on which the theorems below are exercised. The registry of
  \<open>world0\<close> holds one session, for thread \<^verbatim>\<open>t1\<close> and run \<^verbatim>\<open>r1\<close>.
\<close>

definition world0 :: world where
  "world0 =
     \<lparr>active_sessions =
        [(''abc12345'',
          \<lparr>thread_id = JStr ''t1'', run_id = JStr ''r1'', question = ''What is the capital of France?'',
           status = Some ''running'', started_at = 0\<rparr>)],
      assistant_id = JNull, clock = 0, calls = []\<rparr>"

definition ok_response :: "json \<Rightarrow> exn + response" where
  "ok_response body = Inr (Response 200 [] (Inr body))"

text \<open>The run is reported as \<^verbatim>\<open>running\<close> at every poll.\<close>

definition running_engine :: engine where
  "running_engine n rq = (ok_response (JObj [(''status'', JStr ''running'')]), 0)"

text \<open>
  The run is reported as \<^verbatim>\<open>success\<close>; the thread state holds a final report and a last
  message that ends in a question mark.
\<close>

definition report_state :: json where
  "report_state =
     JObj [(''values'',
            JObj [(''final_report'', JStr ''Paris.''),
                  (''messages'', JArr [JObj [(''content'', JStr ''Which region?'')]])])]"

definition report_engine :: engine where
  "report_engine n rq =
     (if rq = GET (state_url (JStr ''t1'')) then (ok_response report_state, 1)
      else (ok_response (JObj [(''status'', JStr ''success'')]), 1))"

text \<open>Every request raises a connection error; every request is answered with 503.\<close>

definition refusing_engine :: engine where
  "refusing_engine n rq = (Inl (Exn ''Connection refused''), 0)"

definition unavailable_engine :: engine where
  "unavailable_engine n rq = (Inr (Response 503 ''Service Unavailable'' (Inl (Exn ''Expecting value''))), 1)"

text \<open>
  A thread that is still busy: no final report, one message that asks nothing. A thread
  whose last message asks for clarification.
\<close>

definition busy_state :: json where
  "busy_state =
     JObj [(''values'', JObj [(''messages'', JArr [JObj [(''content'', JStr ''Searching the web.'')]])]),
           (''status'', JStr ''busy'')]"

definition busy_engine :: engine where
  "busy_engine n rq = (ok_response busy_state, 1)"

definition clarify_state :: json where
  "clarify_state =
     JObj [(''values'',
            JObj [(''messages'',
                   JArr [JObj [(''content'', JStr ''What is the capital of France?'')],
                         JObj [(''content'', JStr ''Could you clarify the target region?'')]])])]"

definition clarify_engine :: engine where
  "clarify_engine n rq =
     (if rq = GET (state_url (JStr ''t1'')) then (ok_response clarify_state, 1)
      else (ok_response (JObj [(''status'', JStr ''success'')]), 1))"

text \<open>
  The run stays \<^verbatim>\<open>running\<close> at every poll while the thread state already holds the
  report.
\<close>

definition late_report_engine :: engine where
  "late_report_engine n rq =
     (if rq = GET (state_url (JStr ''t1'')) then (ok_response report_state, 1)
      else (ok_response (JObj [(''status'', JStr ''running'')]), 1))"

text \<open>
  An engine for a whole \<^verbatim>\<open>research_question\<close>: the liveness probe answers, the search
  finds the assistant \<^verbatim>\<open>asst-1\<close>, thread creation gives \<^verbatim>\<open>t1\<close>, polls report
  \<^verbatim>\<open>success\<close>, the thread state is \<open>report_state\<close>; the reply to the run submission is
  a parameter. \<open>fresh_world\<close> is a process that has just started.
\<close>

definition scripted_engine :: "exn + response \<Rightarrow> engine" where
  "scripted_engine submit_reply n rq =
     (case rq of
        GET url \<Rightarrow>
          if url = LANGGRAPH_API_URL @ ''/docs''
            then (Inr (Response 200 ''<html>docs</html>'' (Inl (Exn ''Expecting value''))), 1)
          else if url = state_url (JStr ''t1'') then (ok_response report_state, 1)
          else (ok_response (JObj [(''status'', JStr ''success'')]), 1)
      | POST url payload \<Rightarrow>
          if url = LANGGRAPH_API_URL @ ''/assistants/search''
            then (ok_response (JArr [JObj [(''assistant_id'', JStr ''asst-1'')]]), 1)
          else if url = LANGGRAPH_API_URL @ ''/threads''
            then (ok_response (JObj [(''thread_id'', JStr ''t1'')]), 1)
          else (submit_reply, 1))"

definition research_engine :: engine where
  "research_engine = scripted_engine (ok_response (JObj [(''run_id'', JStr ''r1'')]))"

definition failing_submit_engine :: engine where
  "failing_submit_engine =
     scripted_engine (Inr (Response 500 ''Internal Server Error'' (Inl (Exn ''Expecting value''))))"

definition fresh_world :: world where
  "fresh_world = \<lparr>active_sessions = [], assistant_id = JNull, clock = 100, calls = []\<rparr>"

text \<open>
  The first status fetch is answered with \<^verbatim>\<open>success\<close>, but only after 22 time units.
\<close>

definition slow_success_engine :: engine where
  "slow_success_engine n rq =
     (if rq = GET (state_url (JStr ''t1'')) then (ok_response report_state, 1)
      else (ok_response (JObj [(''status'', JStr ''success'')]), 22))"

section \<open>The registry across the completion wait\<close>

lemma http_sessions: "http eng rq s = (r, s') \<Longrightarrow> active_sessions s' = active_sessions s"
  by (auto simp: http_def split: prod.splits)

lemma http_assistant: "http eng rq s = (r, s') \<Longrightarrow> assistant_id s' = assistant_id s"
  by (auto simp: http_def split: prod.splits)

lemma dict_del_absent: "\<not> dict_has d k \<Longrightarrow> dict_del d k = d"
  unfolding dict_has_def dict_del_def
  by (induction d) (auto split: if_splits)

lemma extract_report_truthy: "extract_result state = Inr (HasReport fr) \<Longrightarrow> truthy fr"
  unfolding extract_result_def try_bind_def
  by (auto split: sum.splits if_splits)

lemma poll_once_sessions:
  assumes "poll_once eng tid rid sid s = (r, s')"
  shows "case r of
           Some (ReportComplete fr) \<Rightarrow> truthy fr \<and> active_sessions s' = dict_del (active_sessions s) sid
         | _ \<Rightarrow> active_sessions s' = active_sessions s"
  using assms unfolding poll_once_def
  by (auto split: prod.splits sum.splits if_splits extraction.splits
      dest!: http_sessions dest: extract_report_truthy simp: dict_del_absent try_bind_def)

lemma wait_loop_sessions:
  "wait_loop eng tid rid sid timeout start s = (out, s') \<Longrightarrow>
     (case out of
        ReportComplete fr \<Rightarrow> truthy fr \<and> active_sessions s' = dict_del (active_sessions s) sid
      | _ \<Rightarrow> active_sessions s' = active_sessions s)"
proof (induction eng tid rid sid timeout start s rule: wait_loop.induct)
  case (1 eng tid rid sid timeout start s)
  show ?case
  proof (cases "clock s - start < timeout")
    case False
    with "1.prems" show ?thesis
      by (auto simp: wait_loop.simps [of eng tid rid sid timeout start s])
  next
    case True
    obtain r s1 where p: "poll_once eng tid rid sid s = (r, s1)"
      by (cases "poll_once eng tid rid sid s")
    show ?thesis
    proof (cases r)
      case None
      from poll_once_sessions [OF p] None have eq: "active_sessions s1 = active_sessions s"
        by simp
      from "1.prems" True p None
      have "wait_loop eng tid rid sid timeout start (sleep POLL_INTERVAL s1) = (out, s')"
        by (simp add: wait_loop.simps [of eng tid rid sid timeout start s])
      from "1.IH" [OF True p [symmetric] _ this] None
      show ?thesis using eq by (auto simp: sleep_def split: outcome.splits)
    next
      case (Some o1)
      from "1.prems" True p Some have "out = o1" "s' = s1"
        by (simp_all add: wait_loop.simps [of eng tid rid sid timeout start s])
      with poll_once_sessions [OF p] Some show ?thesis
        by (auto split: outcome.splits)
    qed
  qed
qed

text \<open>
  Claim C2. Whatever the completion wait returns, the registry afterwards is the registry
  before with the waiting session deleted when the outcome is the final report (which is
  then non-empty), and exactly the registry before for every other outcome: a run that
  failed, a deadline that passed, a polling error, a request for clarification, a success
  with no usable result.
\<close>

theorem session_deleted_only_with_report:
  assumes "wait_for_research_completion eng tid rid sid timeout s = (out, s')"
  shows "(\<forall>fr. out = ReportComplete fr \<longrightarrow>
            truthy fr \<and> active_sessions s' = dict_del (active_sessions s) sid) \<and>
         ((\<forall>fr. out \<noteq> ReportComplete fr) \<longrightarrow> active_sessions s' = active_sessions s)"
  using wait_loop_sessions [of eng tid rid sid timeout "clock s" s out s'] assms
  unfolding wait_for_research_completion_def
  by (auto split: outcome.splits)

theorem session_deleted_only_with_report_witness:
  "fst (wait_for_research_completion report_engine (JStr ''t1'') (JStr ''r1'') ''abc12345'' 4 world0)
     = ReportComplete (JStr ''Paris.'') \<and>
   active_sessions
     (snd (wait_for_research_completion report_engine (JStr ''t1'') (JStr ''r1'') ''abc12345'' 4 world0))
     = dict_del (active_sessions world0) ''abc12345'' \<and>
   fst (wait_for_research_completion running_engine (JStr ''t1'') (JStr ''r1'') ''abc12345'' 4 world0)
     = TimedOut 4 (JStr ''t1'') \<and>
   active_sessions
     (snd (wait_for_research_completion running_engine (JStr ''t1'') (JStr ''r1'') ''abc12345'' 4 world0))
     = active_sessions world0"
proof -
  have a: "fst (wait_for_research_completion report_engine (JStr ''t1'') (JStr ''r1'') ''abc12345'' 4 world0)
      = ReportComplete (JStr ''Paris.'')"
    by code_simp
  have b: "fst (wait_for_research_completion running_engine (JStr ''t1'') (JStr ''r1'') ''abc12345'' 4 world0)
      = TimedOut 4 (JStr ''t1'')"
    by code_simp
  from a b
    session_deleted_only_with_report [OF surjective_pairing,
      of report_engine "JStr ''t1''" "JStr ''r1''" "''abc12345''" 4 world0]
    session_deleted_only_with_report [OF surjective_pairing,
      of running_engine "JStr ''t1''" "JStr ''r1''" "''abc12345''" 4 world0]
  show ?thesis by simp
qed

section \<open>Deadline of the completion wait\<close>

lemma poll_once_not_terminal:
  assumes "\<not> reports_terminal (fst (eng (length (calls s)) (GET (run_url tid rid))))"
  shows "poll_once eng tid rid sid s =
     (case poll_failure (fst (eng (length (calls s)) (GET (run_url tid rid)))) of
        Some e \<Rightarrow> (Some (ErrorDuringResearch e tid), snd (http eng (GET (run_url tid rid)) s))
      | None \<Rightarrow> (None, snd (http eng (GET (run_url tid rid)) s)))"
proof -
  obtain reply d where e: "eng (length (calls s)) (GET (run_url tid rid)) = (reply, d)"
    by (cases "eng (length (calls s)) (GET (run_url tid rid))")
  then have h: "http eng (GET (run_url tid rid)) s =
      (reply, s\<lparr>clock := clock s + int d, calls := calls s @ [GET (run_url tid rid)]\<rparr>)"
    by (simp add: http_def)
  show ?thesis
  proof (cases reply)
    case (Inl ex)
    with e h show ?thesis by (simp add: poll_once_def poll_failure_def)
  next
    case (Inr response)
    show ?thesis
    proof (cases "status_code response = 200")
      case False
      with Inr e h show ?thesis by (simp add: poll_once_def poll_failure_def)
    next
      case True
      show ?thesis
      proof (cases "run_status response")
        case (Inl ex)
        with True Inr e h show ?thesis by (simp add: poll_once_def poll_failure_def)
      next
        case st: (Inr st)
        from assms e Inr True st have "\<not> terminal_status st"
          by (simp add: reports_terminal_def)
        then have "st \<noteq> JStr ''success''"
          and "st \<notin> set [JStr ''error'', JStr ''timeout'', JStr ''interrupted'']"
          by (auto simp: terminal_status_def)
        with True Inr e h st show ?thesis by (simp add: poll_once_def poll_failure_def)
      qed
    qed
  qed
qed


lemma half_step:
  fixes a b t :: int
  assumes "a + 2 \<le> b" and "k < nat ((t - b + 1) div 2)"
  shows "Suc k < nat ((t - a + 1) div 2)"
proof -
  from assms(1) have "(t - b + 1) div 2 \<le> (t - a + 1 - 2) div 2"
    by (intro zdiv_mono1) simp_all
  also have "\<dots> = (t - a + 1) div 2 - 1" by simp
  finally show ?thesis using assms(2) by simp
qed

lemma http_calls: "calls (snd (http eng rq s)) = calls s @ [rq]"
  by (simp add: http_def split: prod.splits)

lemma http_clock_snd: "clock s \<le> clock (snd (http eng rq s))"
  by (simp add: http_def split: prod.splits)

lemma http_sessions_snd: "active_sessions (snd (http eng rq s)) = active_sessions s"
  by (simp add: http_def split: prod.splits)

lemma wait_loop_times_out:
  "\<forall>k < nat ((start + timeout - clock s + 1) div 2).
      still_running (fst (eng (length (calls s) + k) (GET (run_url tid rid)))) \<Longrightarrow>
   \<exists>s'. wait_loop eng tid rid sid timeout start s = (TimedOut timeout tid, s') \<and>
        active_sessions s' = active_sessions s"
proof (induction eng tid rid sid timeout start s rule: wait_loop.induct)
  case (1 eng tid rid sid timeout start s)
  show ?case
  proof (cases "clock s - start < timeout")
    case False
    then show ?thesis
      by (simp add: wait_loop.simps [of eng tid rid sid timeout start s])
  next
    case True
    let ?rq = "GET (run_url tid rid)"
    let ?s1 = "snd (http eng ?rq s)"
    let ?s2 = "sleep POLL_INTERVAL ?s1"
    from True have "0 < nat ((start + timeout - clock s + 1) div 2)" by simp
    with "1.prems" have "still_running (fst (eng (length (calls s) + 0) ?rq))" by blast
    then have sr: "still_running (fst (eng (length (calls s)) ?rq))" by simp
    then have p: "poll_once eng tid rid sid s = (None, ?s1)"
      using poll_once_not_terminal [of eng s tid rid sid]
      by (simp add: still_running_def)
    have c2: "clock s + 2 \<le> clock ?s2"
      using http_clock_snd [of s eng ?rq] by (simp add: sleep_def POLL_INTERVAL_def)
    have l2: "length (calls ?s2) = Suc (length (calls s))"
      by (simp add: sleep_def http_calls)
    have "\<forall>k < nat ((start + timeout - clock ?s2 + 1) div 2).
        still_running (fst (eng (length (calls ?s2) + k) ?rq))"
    proof (intro allI impI)
      fix k
      assume "k < nat ((start + timeout - clock ?s2 + 1) div 2)"
      with c2 have "Suc k < nat ((start + timeout - clock s + 1) div 2)"
        by (rule half_step)
      with "1.prems" have "still_running (fst (eng (length (calls s) + Suc k) ?rq))" by blast
      then show "still_running (fst (eng (length (calls ?s2) + k) ?rq))"
        by (simp add: l2)
    qed
    from "1.IH" [OF True p [symmetric] refl this]
    obtain s' where w: "wait_loop eng tid rid sid timeout start ?s2 = (TimedOut timeout tid, s')"
      and a: "active_sessions s' = active_sessions ?s2" by blast
    have "active_sessions ?s2 = active_sessions s"
      by (simp add: sleep_def http_sessions_snd)
    with True p w a show ?thesis
      by (simp add: wait_loop.simps [of eng tid rid sid timeout start s])
  qed
qed


lemma poll_step_not_terminal:
  assumes "\<not> reports_terminal (fst (eng (length (calls s)) (GET (run_url (JStr tid) (JStr rid)))))"
  shows "poll_step eng tid rid s =
     (case poll_failure (fst (eng (length (calls s)) (GET (run_url (JStr tid) (JStr rid))))) of
        Some e \<Rightarrow> (Some (PollError (''Polling error: '' @ str_exn e)),
                   snd (http eng (GET (run_url (JStr tid) (JStr rid))) s))
      | None \<Rightarrow> (None, snd (http eng (GET (run_url (JStr tid) (JStr rid))) s)))"
proof -
  let ?rq = "GET (run_url (JStr tid) (JStr rid))"
  obtain reply d where e: "eng (length (calls s)) ?rq = (reply, d)"
    by (cases "eng (length (calls s)) ?rq")
  then have h: "http eng ?rq s = (reply, s\<lparr>clock := clock s + int d, calls := calls s @ [?rq]\<rparr>)"
    by (simp add: http_def)
  show ?thesis
  proof (cases reply)
    case (Inl ex)
    with e h show ?thesis by (simp add: poll_step_def poll_failure_def)
  next
    case (Inr response)
    show ?thesis
    proof (cases "status_code response = 200")
      case False
      with Inr e h show ?thesis by (simp add: poll_step_def poll_failure_def)
    next
      case True
      show ?thesis
      proof (cases "run_status response")
        case (Inl ex)
        with True Inr e h show ?thesis by (simp add: poll_step_def poll_failure_def)
      next
        case st: (Inr st)
        from assms e Inr True st have "\<not> terminal_status st"
          by (simp add: reports_terminal_def)
        then have "st \<noteq> JStr ''success''"
          and "st \<notin> set [JStr ''error'', JStr ''timeout'', JStr ''interrupted'']"
          by (auto simp: terminal_status_def)
        with True Inr e h st show ?thesis by (simp add: poll_step_def poll_failure_def)
      qed
    qed
  qed
qed

lemma poll_loop_times_out:
  "\<forall>k < nat ((start + max_wait - clock s + 1) div 2).
      still_running (fst (eng (length (calls s) + k) (GET (run_url (JStr tid) (JStr rid))))) \<Longrightarrow>
   \<exists>s'. poll_loop eng tid rid max_wait start s = (PollTimeout, s') \<and>
        active_sessions s' = active_sessions s"
proof (induction eng tid rid max_wait start s rule: poll_loop.induct)
  case (1 eng tid rid max_wait start s)
  show ?case
  proof (cases "clock s - start < max_wait")
    case False
    then show ?thesis
      by (simp add: poll_loop.simps [of eng tid rid max_wait start s])
  next
    case True
    let ?rq = "GET (run_url (JStr tid) (JStr rid))"
    let ?s1 = "snd (http eng ?rq s)"
    let ?s2 = "sleep POLL_INTERVAL ?s1"
    from True have "0 < nat ((start + max_wait - clock s + 1) div 2)" by simp
    with "1.prems" have "still_running (fst (eng (length (calls s) + 0) ?rq))" by blast
    then have sr: "still_running (fst (eng (length (calls s)) ?rq))" by simp
    then have p: "poll_step eng tid rid s = (None, ?s1)"
      using poll_step_not_terminal [of eng s tid rid]
      by (simp add: still_running_def)
    have c2: "clock s + 2 \<le> clock ?s2"
      using http_clock_snd [of s eng ?rq] by (simp add: sleep_def POLL_INTERVAL_def)
    have l2: "length (calls ?s2) = Suc (length (calls s))"
      by (simp add: sleep_def http_calls)
    have "\<forall>k < nat ((start + max_wait - clock ?s2 + 1) div 2).
        still_running (fst (eng (length (calls ?s2) + k) ?rq))"
    proof (intro allI impI)
      fix k
      assume "k < nat ((start + max_wait - clock ?s2 + 1) div 2)"
      with c2 have "Suc k < nat ((start + max_wait - clock s + 1) div 2)"
        by (rule half_step)
      with "1.prems" have "still_running (fst (eng (length (calls s) + Suc k) ?rq))" by blast
      then show "still_running (fst (eng (length (calls ?s2) + k) ?rq))"
        by (simp add: l2)
    qed
    from "1.IH" [OF True p [symmetric] refl this]
    obtain s' where w: "poll_loop eng tid rid max_wait start ?s2 = (PollTimeout, s')"
      and a: "active_sessions s' = active_sessions ?s2" by blast
    have "active_sessions ?s2 = active_sessions s"
      by (simp add: sleep_def http_sessions_snd)
    with True p w a show ?thesis
      by (simp add: poll_loop.simps [of eng tid rid max_wait start s])
  qed
qed

text \<open>
  Claim C3, as stated, fails in two ways. An engine that refuses every connection never
  reports a terminal run status, and the wait returns the error outcome at the first poll,
  not the timed-out one. An engine whose first reply, \<^verbatim>\<open>success\<close>, arrives at time 22 has
  reported no terminal status within a deadline of 4; the loop tests the deadline only before
  it issues a request, so the wait returns the report and deletes the session.
\<close>

theorem deadline_counterexample:
  "\<not> reports_terminal (fst (refusing_engine 0 (GET (run_url (JStr ''t1'') (JStr ''r1''))))) \<and>
   fst (wait_for_research_completion refusing_engine (JStr ''t1'') (JStr ''r1'') ''abc12345'' 4 world0)
     = ErrorDuringResearch (Exn ''Connection refused'') (JStr ''t1'') \<and>
   calls (snd (wait_for_research_completion refusing_engine (JStr ''t1'') (JStr ''r1'') ''abc12345'' 4 world0))
     = [GET (run_url (JStr ''t1'') (JStr ''r1''))] \<and>
   clock world0 = 0 \<and>
   clock (snd (http slow_success_engine (GET (run_url (JStr ''t1'') (JStr ''r1''))) world0)) = 22 \<and>
   fst (wait_for_research_completion slow_success_engine (JStr ''t1'') (JStr ''r1'') ''abc12345'' 4 world0)
     = ReportComplete (JStr ''Paris.'') \<and>
   \<not> dict_has
       (active_sessions
         (snd (wait_for_research_completion slow_success_engine (JStr ''t1'') (JStr ''r1'') ''abc12345'' 4
                world0)))
       ''abc12345''"
proof (intro conjI)
  show "\<not> reports_terminal (fst (refusing_engine 0 (GET (run_url (JStr ''t1'') (JStr ''r1'')))))"
    by (simp add: refusing_engine_def reports_terminal_def)
  show "fst (wait_for_research_completion refusing_engine (JStr ''t1'') (JStr ''r1'') ''abc12345'' 4 world0)
     = ErrorDuringResearch (Exn ''Connection refused'') (JStr ''t1'')"
    by code_simp
  show "calls (snd (wait_for_research_completion refusing_engine (JStr ''t1'') (JStr ''r1'') ''abc12345'' 4 world0))
     = [GET (run_url (JStr ''t1'') (JStr ''r1''))]"
    by code_simp
  show "clock world0 = 0"
    by (simp add: world0_def)
  show "clock (snd (http slow_success_engine (GET (run_url (JStr ''t1'') (JStr ''r1''))) world0)) = 22"
    by code_simp
  show "fst (wait_for_research_completion slow_success_engine (JStr ''t1'') (JStr ''r1'') ''abc12345'' 4 world0)
     = ReportComplete (JStr ''Paris.'')"
    by code_simp
  show "\<not> dict_has
       (active_sessions
         (snd (wait_for_research_completion slow_success_engine (JStr ''t1'') (JStr ''r1'') ''abc12345'' 4
                world0)))
       ''abc12345''"
    by code_simp
qed

text \<open>
  Claim C3, amended. Take an engine whose replies to the first \<open>\<lceil>timeout / 2\<rceil>\<close> status
  fetches of the wait (the wait issues at most that many: one per pass, and each pass ends
  with a sleep of 2 time units) neither report a terminal run status nor fail, whenever they
  arrive. Then \<^verbatim>\<open>wait_for_research_completion\<close> returns the timed-out outcome, for every
  deadline (720 by default, \<open>DEFAULT_TIMEOUT\<close>), and the registry afterwards is the registry
  before: every session is still there with the record it had. The same holds for
  \<^verbatim>\<open>poll_for_completion\<close> of \<^verbatim>\<open>async_research_mcp.py\<close>; the field \<^verbatim>\<open>status\<close> exists only
  in the records of that file, where it stays what it was (\<^verbatim>\<open>running\<close> as set by
  \<^verbatim>\<open>start_research\<close>).
\<close>

theorem never_terminal_times_out:
  "((\<forall>k < nat ((timeout + 1) div 2).
       still_running (fst (eng (length (calls s) + k) (GET (run_url tid rid))))) \<longrightarrow>
    (\<exists>s'. wait_for_research_completion eng tid rid sid timeout s = (TimedOut timeout tid, s') \<and>
          active_sessions s' = active_sessions s \<and>
          (\<forall>i sess. map_of (active_sessions s) i = Some sess \<longrightarrow>
             map_of (active_sessions s') i = Some sess))) \<and>
   ((\<forall>k < nat ((timeout + 1) div 2).
       still_running (fst (eng (length (calls s) + k) (GET (run_url (JStr t) (JStr r)))))) \<longrightarrow>
    (\<exists>s'. poll_for_completion eng t r timeout s = (PollTimeout, s') \<and>
          active_sessions s' = active_sessions s \<and>
          (\<forall>i sess. map_of (active_sessions s) i = Some sess \<longrightarrow>
             map_of (active_sessions s') i = Some sess)))"
  using wait_loop_times_out [of "clock s" timeout s eng tid rid sid]
    poll_loop_times_out [of "clock s" timeout s eng t r]
  by (auto simp: wait_for_research_completion_def poll_for_completion_def)

lemma still_running_running: "still_running (fst (running_engine n rq))"
  by (simp add: running_engine_def ok_response_def still_running_def poll_failure_def
      reports_terminal_def run_status_def try_bind_def terminal_status_def)

theorem never_terminal_times_out_witness:
  "(\<exists>s'. wait_for_research_completion running_engine (JStr ''t1'') (JStr ''r1'') ''abc12345'' 4 world0
          = (TimedOut 4 (JStr ''t1''), s') \<and>
        active_sessions s' = active_sessions world0) \<and>
   (\<exists>s'. poll_for_completion running_engine ''t1'' ''r1'' 4 world0 = (PollTimeout, s') \<and>
        map_of (active_sessions s') ''abc12345'' =
          Some \<lparr>thread_id = JStr ''t1'', run_id = JStr ''r1'',
                question = ''What is the capital of France?'',
                status = Some ''running'', started_at = 0\<rparr>)"
proof -
  note t = never_terminal_times_out
    [of 4 running_engine world0 "JStr ''t1''" "JStr ''r1''" "''abc12345''" "''t1''" "''r1''"]
  have m: "map_of (active_sessions world0) ''abc12345'' =
      Some \<lparr>thread_id = JStr ''t1'', run_id = JStr ''r1'',
            question = ''What is the capital of France?'',
            status = Some ''running'', started_at = 0\<rparr>"
    by (simp add: world0_def)
  from t obtain s1 where 1: "wait_for_research_completion running_engine (JStr ''t1'') (JStr ''r1'')
        ''abc12345'' 4 world0 = (TimedOut 4 (JStr ''t1''), s1)"
      "active_sessions s1 = active_sessions world0"
    by (auto simp: still_running_running)
  from t obtain s2 where 2: "poll_for_completion running_engine ''t1'' ''r1'' 4 world0 = (PollTimeout, s2)"
      "\<forall>i sess. map_of (active_sessions world0) i = Some sess \<longrightarrow>
         map_of (active_sessions s2) i = Some sess"
    by (auto simp: still_running_running)
  from 2(2) m have "map_of (active_sessions s2) ''abc12345'' =
      Some \<lparr>thread_id = JStr ''t1'', run_id = JStr ''r1'',
            question = ''What is the capital of France?'',
            status = Some ''running'', started_at = 0\<rparr>"
    by blast
  with 1 2(1) show ?thesis by blast
qed


section \<open>Failed polls\<close>

lemma starts_with_append: "starts_with x (x @ b)"
  by (induction x) simp_all

lemma str_contains_nil: "str_contains [] ys"
  by (cases ys) simp_all

lemma str_contains_prefix: "str_contains x (x @ b)"
  by (cases x) (simp_all add: str_contains_nil starts_with_append)

lemma str_contains_append_left: "str_contains x ys \<Longrightarrow> str_contains x (a @ ys)"
  by (induction a) simp_all

lemma str_contains_mid: "str_contains x (a @ x @ b)"
  by (rule str_contains_append_left) (rule str_contains_prefix)

lemma error_message_has_diagnostic: "str_contains (str_exn e) (render (ErrorDuringResearch e tid))"
proof -
  have "render (ErrorDuringResearch e tid) =
      (CROSS @ '' Error during research: '') @ str_exn e @ (''. Thread ID: '' @ py_str tid)"
    by simp
  then show ?thesis by (simp only: str_contains_mid)
qed

lemma http_calls_le: "http eng rq s = (r, s') \<Longrightarrow> length (calls s') = Suc (length (calls s))"
  by (auto simp: http_def split: prod.splits)

lemma poll_once_calls:
  "poll_once eng tid rid sid s = (r, s') \<Longrightarrow> length (calls s') \<le> length (calls s) + 2"
  unfolding poll_once_def
  by (auto split: prod.splits sum.splits if_splits extraction.splits dest!: http_calls_le)

lemma half_bound:
  fixes a b t :: int
  assumes "a + 2 \<le> b" and "0 < t - a"
  shows "Suc (nat ((t - b + 1) div 2)) \<le> nat ((t - a + 1) div 2)"
proof -
  from assms(1) have "(t - b + 1) div 2 \<le> (t - a + 1 - 2) div 2"
    by (intro zdiv_mono1) simp_all
  also have "\<dots> = (t - a + 1) div 2 - 1" by simp
  finally have 1: "(t - b + 1) div 2 + 1 \<le> (t - a + 1) div 2" by simp
  from assms(2) have "1 \<le> (t - a + 1) div 2" by simp
  with 1 show ?thesis by linarith
qed

lemma wait_loop_calls:
  "length (calls (snd (wait_loop eng tid rid sid timeout start s)))
     \<le> length (calls s) + 2 * nat ((start + timeout - clock s + 1) div 2)"
proof (induction eng tid rid sid timeout start s rule: wait_loop.induct)
  case (1 eng tid rid sid timeout start s)
  show ?case
  proof (cases "clock s - start < timeout")
    case False
    then show ?thesis
      by (simp add: wait_loop.simps [of eng tid rid sid timeout start s])
  next
    case True
    obtain r s1 where p: "poll_once eng tid rid sid s = (r, s1)"
      by (cases "poll_once eng tid rid sid s")
    from True have pos: "1 \<le> nat ((start + timeout - clock s + 1) div 2)" by simp
    note c = poll_once_calls [OF p]
    show ?thesis
    proof (cases r)
      case (Some out)
      with True p have "wait_loop eng tid rid sid timeout start s = (out, s1)"
        by (simp add: wait_loop.simps [of eng tid rid sid timeout start s])
      with c pos show ?thesis by simp
    next
      case None
      let ?s2 = "sleep POLL_INTERVAL s1"
      from True p None
      have eq: "wait_loop eng tid rid sid timeout start s = wait_loop eng tid rid sid timeout start ?s2"
        by (simp add: wait_loop.simps [of eng tid rid sid timeout start s])
      have "clock s + 2 \<le> clock ?s2"
        using poll_once_clock [OF p] by (simp add: sleep_def POLL_INTERVAL_def)
      moreover from True have "0 < start + timeout - clock s" by simp
      ultimately have hb: "Suc (nat ((start + timeout - clock ?s2 + 1) div 2))
          \<le> nat ((start + timeout - clock s + 1) div 2)"
        by (rule half_bound)
      have "length (calls ?s2) \<le> length (calls s) + 2"
        using c by (simp add: sleep_def)
      with "1.IH" [OF True p [symmetric] None] hb eq show ?thesis by simp
    qed
  qed
qed

text \<open>
  Claim C5. In a pass of the polling loop whose status fetch does not report a terminal
  status, exactly one of two things happens. If the fetch fails (the request raises, or the
  body of a 200 answer cannot be read) the wait returns at once with the error outcome, whose
  text carries the message of the exception. Otherwise (an answer other than 200, or a
  non-terminal status) the loop sleeps the poll interval and goes round again. Retrying
  is bounded: the whole wait issues at most two requests for each poll interval that fits
  in the deadline.
\<close>

theorem failed_poll_retried_or_reported:
  "(clock s - start < timeout \<and>
      \<not> reports_terminal (fst (eng (length (calls s)) (GET (run_url tid rid)))) \<longrightarrow>
    wait_loop eng tid rid sid timeout start s =
      (case poll_failure (fst (eng (length (calls s)) (GET (run_url tid rid)))) of
         Some e \<Rightarrow> (ErrorDuringResearch e tid, snd (http eng (GET (run_url tid rid)) s))
       | None \<Rightarrow> wait_loop eng tid rid sid timeout start
                   (sleep POLL_INTERVAL (snd (http eng (GET (run_url tid rid)) s))))) \<and>
   length (calls (snd (wait_for_research_completion eng tid rid sid timeout s)))
     \<le> length (calls s) + 2 * nat ((timeout + 1) div 2) \<and>
   str_contains (str_exn ex) (render (ErrorDuringResearch ex tid))"
proof (intro conjI impI)
  assume a: "clock s - start < timeout \<and>
      \<not> reports_terminal (fst (eng (length (calls s)) (GET (run_url tid rid))))"
  then show "wait_loop eng tid rid sid timeout start s =
      (case poll_failure (fst (eng (length (calls s)) (GET (run_url tid rid)))) of
         Some e \<Rightarrow> (ErrorDuringResearch e tid, snd (http eng (GET (run_url tid rid)) s))
       | None \<Rightarrow> wait_loop eng tid rid sid timeout start
                   (sleep POLL_INTERVAL (snd (http eng (GET (run_url tid rid)) s))))"
    using poll_once_not_terminal [of eng s tid rid sid]
    by (simp add: wait_loop.simps [of eng tid rid sid timeout start s] split: option.splits)
next
  show "length (calls (snd (wait_for_research_completion eng tid rid sid timeout s)))
     \<le> length (calls s) + 2 * nat ((timeout + 1) div 2)"
    using wait_loop_calls [of eng tid rid sid timeout "clock s" s]
    by (simp add: wait_for_research_completion_def)
next
  show "str_contains (str_exn ex) (render (ErrorDuringResearch ex tid))"
    by (rule error_message_has_diagnostic)
qed

theorem failed_poll_retried_or_reported_witness:
  "wait_loop refusing_engine (JStr ''t1'') (JStr ''r1'') ''abc12345'' 4 0 world0 =
     (ErrorDuringResearch (Exn ''Connection refused'') (JStr ''t1''),
      snd (http refusing_engine (GET (run_url (JStr ''t1'') (JStr ''r1''))) world0)) \<and>
   wait_loop unavailable_engine (JStr ''t1'') (JStr ''r1'') ''abc12345'' 4 0 world0 =
     wait_loop unavailable_engine (JStr ''t1'') (JStr ''r1'') ''abc12345'' 4 0
       (sleep POLL_INTERVAL (snd (http unavailable_engine (GET (run_url (JStr ''t1'') (JStr ''r1''))) world0))) \<and>
   length (calls (snd (wait_for_research_completion unavailable_engine (JStr ''t1'') (JStr ''r1'')
       ''abc12345'' 4 world0))) \<le> 4 \<and>
   str_contains ''Connection refused''
     (render (ErrorDuringResearch (Exn ''Connection refused'') (JStr ''t1'')))"
proof -
  have c: "clock world0 = 0" "calls world0 = []" by (simp_all add: world0_def)
  have r: "\<not> reports_terminal (fst (refusing_engine n rq))"
    "poll_failure (fst (refusing_engine n rq)) = Some (Exn ''Connection refused'')" for n rq
    by (simp_all add: refusing_engine_def reports_terminal_def poll_failure_def)
  have u: "\<not> reports_terminal (fst (unavailable_engine n rq))"
    "poll_failure (fst (unavailable_engine n rq)) = None" for n rq
    by (simp_all add: unavailable_engine_def reports_terminal_def poll_failure_def)
  from failed_poll_retried_or_reported
      [of world0 0 4 refusing_engine "JStr ''t1''" "JStr ''r1''" "''abc12345''" "Exn ''Connection refused''"]
    failed_poll_retried_or_reported
      [of world0 0 4 unavailable_engine "JStr ''t1''" "JStr ''r1''" "''abc12345''" "Exn ''Connection refused''"]
  show ?thesis by (simp add: c r u)
qed


section \<open>Priority of the final report\<close>

lemma extract_report:
  assumes "final_report_of state = Some fr" and "truthy fr"
  shows "extract_result state = Inr (HasReport fr)"
  using assms unfolding final_report_of_def extract_result_def try_bind_def
  by (auto split: json.splits option.splits)

lemma wait_loop_success:
  assumes "clock s - start < timeout" and "polled_state eng s tid rid = Some state"
  shows "fst (wait_loop eng tid rid sid timeout start s) =
     (case extract_result state of
        Inl e \<Rightarrow> ErrorDuringResearch e tid
      | Inr (HasReport fr) \<Rightarrow> ReportComplete fr
      | Inr (NeedsClarification c) \<Rightarrow> ClarificationNeeded c tid
      | Inr NoUsableResult \<Rightarrow> NoResultsFound tid)"
proof -
  let ?rq = "GET (run_url tid rid)"
  obtain reply d where e: "eng (length (calls s)) ?rq = (reply, d)"
    by (cases "eng (length (calls s)) ?rq")
  define s1 where "s1 = s\<lparr>clock := clock s + int d, calls := calls s @ [?rq]\<rparr>"
  from e have h: "http eng ?rq s = (reply, s1)" by (simp add: http_def s1_def)
  obtain reply2 d2 where e2: "eng (Suc (length (calls s))) (GET (state_url tid)) = (reply2, d2)"
    by (cases "eng (Suc (length (calls s))) (GET (state_url tid))")
  define s2 where "s2 = s1\<lparr>clock := clock s1 + int d2, calls := calls s1 @ [GET (state_url tid)]\<rparr>"
  from e2 have h2: "http eng (GET (state_url tid)) s1 = (reply2, s2)"
    by (simp add: http_def s1_def s2_def)
  from assms(2) e e2 obtain r1 r2 where r: "reply = Inr r1" "status_code r1 = 200"
    "run_status r1 = Inr (JStr ''success'')" "reply2 = Inr r2" "status_code r2 = 200"
    "resp_json r2 = Inr state"
    unfolding polled_state_def by (auto split: sum.splits if_splits)
  have "\<exists>s'. poll_once eng tid rid sid s =
     (Some (case extract_result state of
        Inl e \<Rightarrow> ErrorDuringResearch e tid
      | Inr (HasReport fr) \<Rightarrow> ReportComplete fr
      | Inr (NeedsClarification c) \<Rightarrow> ClarificationNeeded c tid
      | Inr NoUsableResult \<Rightarrow> NoResultsFound tid), s')"
    using h h2 r by (simp add: poll_once_def try_bind_def split: sum.splits extraction.splits)
  with assms(1) show ?thesis
    by (auto simp: wait_loop.simps [of eng tid rid sid timeout start s])
qed

lemma recovery_result:
  assumes "recovered_state eng s tid = Some state"
  shows "fst (get_research_by_thread_id eng tid s) =
     (case extract_result state of
        Inl e \<Rightarrow> RetrieveError e
      | Inr (HasReport fr) \<Rightarrow> ReportComplete fr
      | Inr (NeedsClarification c) \<Rightarrow> RecoveredClarification c tid
      | Inr NoUsableResult \<Rightarrow>
          (case py_get state ''status'' (JStr ''unknown'') of
             Inl e \<Rightarrow> RetrieveError e
           | Inr thread_status \<Rightarrow>
               if thread_status = JStr ''busy'' then StillInProgress tid else NothingFound tid))"
proof -
  let ?rq = "GET (state_url (JStr tid))"
  obtain reply d where e: "eng (length (calls s)) ?rq = (reply, d)"
    by (cases "eng (length (calls s)) ?rq")
  then have h: "http eng ?rq s = (reply, s\<lparr>clock := clock s + int d, calls := calls s @ [?rq]\<rparr>)"
    by (simp add: http_def)
  from assms e obtain r where r: "reply = Inr r" "status_code r = 200" "resp_json r = Inr state"
    unfolding recovered_state_def by (auto split: sum.splits if_splits)
  show ?thesis
    using h r by (simp add: get_research_by_thread_id_def split: sum.splits extraction.splits)
qed

text \<open>
  Claim C1. When the values of the thread state hold a non-empty final report, the
  extraction takes the report branch whatever the message history is, also when the last
  message looks like a question. So the success branch of the completion wait (in any pass
  of the loop that starts within the deadline, the first one included) and the recovery by
  thread id both return the report outcome with that report.
\<close>

theorem report_first:
  assumes "final_report_of state = Some fr" and "truthy fr"
  shows "extract_result state = Inr (HasReport fr) \<and>
         (clock s - start < timeout \<and> polled_state eng s tid rid = Some state \<longrightarrow>
            fst (wait_loop eng tid rid sid timeout start s) = ReportComplete fr) \<and>
         (0 < timeout \<and> polled_state eng s tid rid = Some state \<longrightarrow>
            fst (wait_for_research_completion eng tid rid sid timeout s) = ReportComplete fr) \<and>
         (recovered_state eng s t = Some state \<longrightarrow>
            fst (get_research_by_thread_id eng t s) = ReportComplete fr)"
  using extract_report [OF assms] wait_loop_success [of s start timeout eng tid rid state sid]
    wait_loop_success [of s "clock s" timeout eng tid rid state sid]
    recovery_result [of eng s t state]
  by (simp add: wait_for_research_completion_def)

lemma polled_report: "polled_state report_engine world0 (JStr ''t1'') (JStr ''r1'') = Some report_state"
  by (simp add: polled_state_def report_engine_def ok_response_def run_status_def try_bind_def
      state_url_def run_url_def world0_def)

lemma recovered_report: "recovered_state report_engine world0 ''t1'' = Some report_state"
  by (simp add: recovered_state_def report_engine_def ok_response_def)

theorem report_first_witness:
  "looks_like_question (JStr ''Which region?'') = Inr True \<and>
   extract_result report_state = Inr (HasReport (JStr ''Paris.'')) \<and>
   fst (wait_loop report_engine (JStr ''t1'') (JStr ''r1'') ''abc12345'' 4 0 world0)
     = ReportComplete (JStr ''Paris.'') \<and>
   fst (wait_for_research_completion report_engine (JStr ''t1'') (JStr ''r1'') ''abc12345'' 4 world0)
     = ReportComplete (JStr ''Paris.'') \<and>
   fst (get_research_by_thread_id report_engine ''t1'' world0) = ReportComplete (JStr ''Paris.'')"
proof -
  have f: "final_report_of report_state = Some (JStr ''Paris.'')"
    by (simp add: final_report_of_def report_state_def)
  have q: "looks_like_question (JStr ''Which region?'') = Inr True"
    by (simp add: looks_like_question_def try_bind_def)
  have c: "clock world0 - 0 < 4" by (simp add: world0_def)
  from report_first [OF f, where s = world0 and start = 0 and timeout = 4 and eng = report_engine
      and tid = "JStr ''t1''" and rid = "JStr ''r1''" and sid = "''abc12345''" and t = "''t1''"]
    q c polled_report recovered_report
  show ?thesis by simp
qed


section \<open>Clarification requests and empty results\<close>

lemma looks_like_question_text:
  "looks_like_question (JStr txt) = Inr (clarification_heuristic txt)"
  by (simp add: looks_like_question_def clarification_heuristic_def try_bind_def)

lemma extract_without_report:
  assumes "\<forall>fr. final_report_of state = Some fr \<longrightarrow> \<not> truthy fr"
    and "messages_of state = Some (JArr ms)" and "ms \<noteq> []"
    and "message_content (last ms) = JStr txt"
  shows "extract_result state =
     Inr (if clarification_heuristic txt then NeedsClarification (JStr txt) else NoUsableResult)"
proof -
  from assms(2) obtain kvs vs where st: "state = JObj kvs" "map_of kvs ''values'' = Some (JObj vs)"
    "map_of vs ''messages'' = Some (JArr ms)"
    unfolding messages_of_def by (auto split: json.splits option.splits)
  from assms(1) st have nr: "\<not> truthy (case map_of vs ''final_report'' of None \<Rightarrow> JNull | Some v \<Rightarrow> v)"
    unfolding final_report_of_def by (auto split: option.splits)
  show ?thesis
    using st nr assms(3,4)
    by (simp add: extract_result_def try_bind_def looks_like_question_text)
qed

lemma thread_status_get:
  "state = JObj kvs \<Longrightarrow> py_get state ''status'' (JStr ''unknown'') = Inr (thread_status_of state)"
  by (simp add: thread_status_of_def)

text \<open>
  Claim C4, as stated, fails on recovery by thread id: with no final report and a last
  message that asks nothing, a thread state whose status is \<^verbatim>\<open>busy\<close> gives the outcome
  ``still in progress'' (the check of lines 291--293), not ``no results found''.
\<close>

theorem busy_thread_counterexample:
  "final_report_of busy_state = None \<and>
   messages_of busy_state = Some (JArr [JObj [(''content'', JStr ''Searching the web.'')]]) \<and>
   \<not> clarification_heuristic ''Searching the web.'' \<and>
   fst (get_research_by_thread_id busy_engine ''t1'' world0) = StillInProgress ''t1'' \<and>
   fst (get_research_by_thread_id busy_engine ''t1'' world0) \<noteq> NothingFound ''t1''"
  by (simp add: final_report_of_def messages_of_def busy_state_def clarification_heuristic_def
      lower_def lower_char_def get_research_by_thread_id_def http_def busy_engine_def ok_response_def
      extract_result_def try_bind_def looks_like_question_def message_content_def)

text \<open>
  Claim C4, amended. Take a thread state with no or an empty final report and a non-empty
  message history whose last message has a text (a string) as its content. The outcome is a
  clarification request carrying that text exactly when the text is non-empty and contains
  a question mark or, in any letter case, \<^verbatim>\<open>clarify\<close> or \<^verbatim>\<open>specify\<close>. Otherwise the
  completion wait returns ``completed but no results found'', and recovery by thread id
  returns ``still in progress'' when the status of the thread state is \<^verbatim>\<open>busy\<close> and
  ``no results found'' when it is not.
\<close>

theorem clarification_or_nothing:
  assumes "\<forall>fr. final_report_of state = Some fr \<longrightarrow> \<not> truthy fr"
    and "messages_of state = Some (JArr ms)" and "ms \<noteq> []"
    and "message_content (last ms) = JStr txt"
  shows "extract_result state =
           Inr (if clarification_heuristic txt then NeedsClarification (JStr txt) else NoUsableResult) \<and>
         (clock s - start < timeout \<and> polled_state eng s tid rid = Some state \<longrightarrow>
            fst (wait_loop eng tid rid sid timeout start s) =
              (if clarification_heuristic txt then ClarificationNeeded (JStr txt) tid
               else NoResultsFound tid)) \<and>
         (recovered_state eng s t = Some state \<longrightarrow>
            fst (get_research_by_thread_id eng t s) =
              (if clarification_heuristic txt then RecoveredClarification (JStr txt) t
               else if thread_status_of state = JStr ''busy'' then StillInProgress t
               else NothingFound t))"
proof -
  note ex = extract_without_report [OF assms]
  from assms(2) obtain kvs where st: "state = JObj kvs"
    unfolding messages_of_def by (auto split: json.splits)
  show ?thesis
    using ex wait_loop_success [of s start timeout eng tid rid state sid]
      recovery_result [of eng s t state] thread_status_get [OF st]
    by simp
qed

theorem clarification_or_nothing_witness:
  "extract_result clarify_state = Inr (NeedsClarification (JStr ''Could you clarify the target region?'')) \<and>
   fst (wait_loop clarify_engine (JStr ''t1'') (JStr ''r1'') ''abc12345'' 4 0 world0)
     = ClarificationNeeded (JStr ''Could you clarify the target region?'') (JStr ''t1'') \<and>
   fst (get_research_by_thread_id clarify_engine ''t1'' world0)
     = RecoveredClarification (JStr ''Could you clarify the target region?'') ''t1''"
proof -
  have f: "\<forall>fr. final_report_of clarify_state = Some fr \<longrightarrow> \<not> truthy fr"
    by (simp add: final_report_of_def clarify_state_def)
  have m: "messages_of clarify_state =
      Some (JArr [JObj [(''content'', JStr ''What is the capital of France?'')],
                  JObj [(''content'', JStr ''Could you clarify the target region?'')]])"
    by (simp add: messages_of_def clarify_state_def)
  have c: "message_content (last [JObj [(''content'', JStr ''What is the capital of France?'')],
                  JObj [(''content'', JStr ''Could you clarify the target region?'')]])
      = JStr ''Could you clarify the target region?''"
    by (simp add: message_content_def)
  have h: "clarification_heuristic ''Could you clarify the target region?''"
    by (simp add: clarification_heuristic_def)
  have p: "polled_state clarify_engine world0 (JStr ''t1'') (JStr ''r1'') = Some clarify_state"
    by (simp add: polled_state_def clarify_engine_def ok_response_def run_status_def try_bind_def
        state_url_def run_url_def world0_def)
  have r: "recovered_state clarify_engine world0 ''t1'' = Some clarify_state"
    by (simp add: recovered_state_def clarify_engine_def ok_response_def)
  have k: "clock world0 - 0 < 4" by (simp add: world0_def)
  from clarification_or_nothing [OF f m _ c, where s = world0 and start = 0 and timeout = 4
      and eng = clarify_engine and tid = "JStr ''t1''" and rid = "JStr ''r1''"
      and sid = "''abc12345''" and t = "''t1''"] h p r k
  show ?thesis by simp
qed


section \<open>Recovery by thread id\<close>

lemma starts_with_append_right: "starts_with x ys \<Longrightarrow> starts_with x (ys @ b)"
  by (induction x ys rule: starts_with.induct) simp_all

lemma str_contains_append_right: "str_contains x ys \<Longrightarrow> str_contains x (ys @ b)"
proof (induction ys)
  case Nil
  then show ?case by (simp add: str_contains_nil)
next
  case (Cons h hs)
  then show ?case
    using starts_with_append_right [of x "h # hs" b] by auto
qed

lemma str_contains_concat:
  "y \<in> set xs \<Longrightarrow> str_contains x (f y) \<Longrightarrow> str_contains x (concat (map f xs))"
  by (induction xs) (auto intro: str_contains_append_right str_contains_append_left)

lemma session_entry_names_session:
  "str_contains (''**Session '' @ sid @ ''**'') (session_entry now (sid, sess))"
proof -
  have "session_entry now (sid, sess) =
      (BULLET @ '' '') @ (''**Session '' @ sid @ ''**'') @
      (NL @ ''  Thread ID: '' @ py_str (thread_id sess) @ NL @
       ''  Question: '' @ take_chars 80 (question sess) @ ''...'' @ NL @
       ''  Running for: '' @ str_int (now - started_at sess) @ '' seconds'' @ NL @ NL)"
    by (simp add: session_entry_def)
  then show ?thesis by (simp only: str_contains_mid)
qed

lemma listed_session:
  assumes "map_of (active_sessions s) sid = Some sess"
  shows "str_contains (''**Session '' @ sid @ ''**'') (list_active_sessions s)"
proof -
  from assms have m: "(sid, sess) \<in> set (active_sessions s)" by (rule map_of_SomeD)
  then have ne: "active_sessions s \<noteq> []" by auto
  from m have "str_contains (''**Session '' @ sid @ ''**'')
      (concat (map (session_entry (clock s)) (active_sessions s)))"
    by (rule str_contains_concat) (rule session_entry_names_session)
  then have "str_contains (''**Session '' @ sid @ ''**'')
      ((CLIPBOARD @ '' **Active Research Sessions:**'' @ NL @ NL) @
       concat (map (session_entry (clock s)) (active_sessions s)))"
    by (rule str_contains_append_left)
  with ne show ?thesis by (simp add: list_active_sessions_def)
qed

lemma recovery_sessions:
  "active_sessions (snd (get_research_by_thread_id eng t s)) = active_sessions s"
proof -
  obtain r s1 where h: "http eng (GET (state_url (JStr t))) s = (r, s1)"
    by (cases "http eng (GET (state_url (JStr t))) s")
  from http_sessions [OF h] have "active_sessions s1 = active_sessions s" .
  with h show ?thesis
    by (simp add: get_research_by_thread_id_def split: sum.splits extraction.splits)
qed

text \<open>
  Claim C6, as stated, fails in its second half: after a wait that timed out, recovery by
  thread id returns the report, and the session is still in the registry and in the listing.
\<close>

theorem recovery_keeps_session_counterexample:
  "fst (wait_for_research_completion late_report_engine (JStr ''t1'') (JStr ''r1'') ''abc12345'' 4 world0)
     = TimedOut 4 (JStr ''t1'') \<and>
   fst (get_research_by_thread_id late_report_engine ''t1''
         (snd (wait_for_research_completion late_report_engine (JStr ''t1'') (JStr ''r1'') ''abc12345'' 4 world0)))
     = ReportComplete (JStr ''Paris.'') \<and>
   dict_has
     (active_sessions
       (snd (get_research_by_thread_id late_report_engine ''t1''
         (snd (wait_for_research_completion late_report_engine (JStr ''t1'') (JStr ''r1'') ''abc12345'' 4 world0)))))
     ''abc12345'' \<and>
   str_contains ''**Session abc12345**''
     (list_active_sessions
       (snd (get_research_by_thread_id late_report_engine ''t1''
         (snd (wait_for_research_completion late_report_engine (JStr ''t1'') (JStr ''r1'') ''abc12345'' 4 world0)))))"
proof (intro conjI)
  show "fst (wait_for_research_completion late_report_engine (JStr ''t1'') (JStr ''r1'') ''abc12345'' 4 world0)
     = TimedOut 4 (JStr ''t1'')"
    by code_simp
  show "fst (get_research_by_thread_id late_report_engine ''t1''
         (snd (wait_for_research_completion late_report_engine (JStr ''t1'') (JStr ''r1'') ''abc12345'' 4 world0)))
     = ReportComplete (JStr ''Paris.'')"
    by code_simp
  show "dict_has
     (active_sessions
       (snd (get_research_by_thread_id late_report_engine ''t1''
         (snd (wait_for_research_completion late_report_engine (JStr ''t1'') (JStr ''r1'') ''abc12345'' 4 world0)))))
     ''abc12345''"
    by code_simp
  show "str_contains ''**Session abc12345**''
     (list_active_sessions
       (snd (get_research_by_thread_id late_report_engine ''t1''
         (snd (wait_for_research_completion late_report_engine (JStr ''t1'') (JStr ''r1'') ''abc12345'' 4 world0)))))"
    by code_simp
qed

text \<open>
  Claim C6, amended. For a session of the registry whose wait timed out, recovery by that
  session's thread id against a thread state that holds a non-empty final report returns
  that report. Recovery does not touch the registry: it is what it was before the wait, and
  the session is still named in the listing.
\<close>

theorem recovery_after_timeout:
  assumes "map_of (active_sessions s) sid = Some sess"
    and "wait_for_research_completion eng (thread_id sess) (run_id sess) sid timeout s
           = (TimedOut timeout (thread_id sess), s1)"
    and "recovered_state eng s1 (py_str (thread_id sess)) = Some state"
    and "final_report_of state = Some fr" and "truthy fr"
  shows "fst (get_research_by_thread_id eng (py_str (thread_id sess)) s1) = ReportComplete fr \<and>
         active_sessions (snd (get_research_by_thread_id eng (py_str (thread_id sess)) s1))
           = active_sessions s \<and>
         str_contains (''**Session '' @ sid @ ''**'')
           (list_active_sessions (snd (get_research_by_thread_id eng (py_str (thread_id sess)) s1)))"
proof -
  let ?s2 = "snd (get_research_by_thread_id eng (py_str (thread_id sess)) s1)"
  have r: "fst (get_research_by_thread_id eng (py_str (thread_id sess)) s1) = ReportComplete fr"
    using recovery_result [OF assms(3)] extract_report [OF assms(4,5)] by simp
  from assms(2) have "active_sessions s1 = active_sessions s"
    using wait_loop_sessions [of eng "thread_id sess" "run_id sess" sid timeout "clock s" s
        "TimedOut timeout (thread_id sess)" s1]
    by (simp add: wait_for_research_completion_def)
  then have a: "active_sessions ?s2 = active_sessions s"
    by (simp add: recovery_sessions)
  with assms(1) have "map_of (active_sessions ?s2) sid = Some sess" by simp
  then have "str_contains (''**Session '' @ sid @ ''**'') (list_active_sessions ?s2)"
    by (rule listed_session)
  with r a show ?thesis by simp
qed


theorem recovery_after_timeout_witness:
  "fst (get_research_by_thread_id late_report_engine ''t1''
         (snd (wait_for_research_completion late_report_engine (JStr ''t1'') (JStr ''r1'') ''abc12345'' 4 world0)))
     = ReportComplete (JStr ''Paris.'') \<and>
   active_sessions
     (snd (get_research_by_thread_id late_report_engine ''t1''
       (snd (wait_for_research_completion late_report_engine (JStr ''t1'') (JStr ''r1'') ''abc12345'' 4 world0))))
     = active_sessions world0 \<and>
   str_contains ''**Session abc12345**''
     (list_active_sessions
       (snd (get_research_by_thread_id late_report_engine ''t1''
         (snd (wait_for_research_completion late_report_engine (JStr ''t1'') (JStr ''r1'') ''abc12345'' 4 world0)))))"
proof -
  let ?sess = "\<lparr>thread_id = JStr ''t1'', run_id = JStr ''r1'',
      question = ''What is the capital of France?'', status = Some ''running'', started_at = 0\<rparr>"
  let ?w = "wait_for_research_completion late_report_engine (JStr ''t1'') (JStr ''r1'') ''abc12345'' 4 world0"
  have m: "map_of (active_sessions world0) ''abc12345'' = Some ?sess"
    by (simp add: world0_def)
  have "fst ?w = TimedOut 4 (JStr ''t1'')" by code_simp
  then have w: "wait_for_research_completion late_report_engine (thread_id ?sess) (run_id ?sess)
      ''abc12345'' 4 world0 = (TimedOut 4 (thread_id ?sess), snd ?w)"
    by (simp add: prod_eq_iff)
  have r: "recovered_state late_report_engine (snd ?w) (py_str (thread_id ?sess)) = Some report_state"
    by (simp add: recovered_state_def late_report_engine_def ok_response_def)
  have f: "final_report_of report_state = Some (JStr ''Paris.'')"
    by (simp add: final_report_of_def report_state_def)
  from recovery_after_timeout [OF m w r f] show ?thesis by simp
qed

section \<open>The cached assistant\<close>

lemma get_assistant_cached:
  "truthy (assistant_id s) \<Longrightarrow> get_assistant eng s = (assistant_id s, s)"
  by (simp add: get_assistant_def)

lemma get_assistant_stores:
  assumes "get_assistant eng s = (a, s')" and "truthy a"
  shows "assistant_id s' = a"
proof (cases "truthy (assistant_id s)")
  case True
  with assms show ?thesis by (auto simp: get_assistant_def)
next
  case False
  obtain r1 s1 where h1: "http eng (POST (LANGGRAPH_API_URL @ ''/assistants/search'') (JObj [])) s = (r1, s1)"
    by (cases "http eng (POST (LANGGRAPH_API_URL @ ''/assistants/search'') (JObj [])) s")
  obtain r2 s2 where h2: "http eng (POST (LANGGRAPH_API_URL @ ''/assistants'') create_payload) s1 = (r2, s2)"
    by (cases "http eng (POST (LANGGRAPH_API_URL @ ''/assistants'') create_payload) s1")
  from assms False h1 h2 show ?thesis
    by (auto simp: get_assistant_def split: sum.splits option.splits)
qed

lemma get_assistant_keeps:
  "truthy (assistant_id s) \<Longrightarrow> assistant_id (snd (get_assistant eng s)) = assistant_id s"
  by (simp add: get_assistant_cached)

lemma create_thread_assistant: "assistant_id (snd (create_thread eng s)) = assistant_id s"
proof -
  obtain r s1 where h: "http eng (POST (LANGGRAPH_API_URL @ ''/threads'') (JObj [])) s = (r, s1)"
    by (cases "http eng (POST (LANGGRAPH_API_URL @ ''/threads'') (JObj [])) s")
  from http_assistant [OF h] h show ?thesis
    by (simp add: create_thread_def split: sum.splits)
qed

lemma poll_once_assistant:
  "poll_once eng tid rid sid s = (r, s') \<Longrightarrow> assistant_id s' = assistant_id s"
  unfolding poll_once_def
  by (auto split: prod.splits sum.splits if_splits extraction.splits dest!: http_assistant)

lemma wait_loop_assistant:
  "assistant_id (snd (wait_loop eng tid rid sid timeout start s)) = assistant_id s"
proof (induction eng tid rid sid timeout start s rule: wait_loop.induct)
  case (1 eng tid rid sid timeout start s)
  show ?case
  proof (cases "clock s - start < timeout")
    case False
    then show ?thesis
      by (simp add: wait_loop.simps [of eng tid rid sid timeout start s])
  next
    case True
    obtain r s1 where p: "poll_once eng tid rid sid s = (r, s1)"
      by (cases "poll_once eng tid rid sid s")
    note a = poll_once_assistant [OF p]
    show ?thesis
    proof (cases r)
      case (Some out)
      with True p a show ?thesis
        by (simp add: wait_loop.simps [of eng tid rid sid timeout start s])
    next
      case None
      with "1.IH" [OF True p [symmetric] None] True p a show ?thesis
        by (simp add: wait_loop.simps [of eng tid rid sid timeout start s] sleep_def)
    qed
  qed
qed

lemma recovery_assistant:
  "assistant_id (snd (get_research_by_thread_id eng t s)) = assistant_id s"
proof -
  obtain r s1 where h: "http eng (GET (state_url (JStr t))) s = (r, s1)"
    by (cases "http eng (GET (state_url (JStr t))) s")
  from http_assistant [OF h] have "assistant_id s1 = assistant_id s" .
  with h show ?thesis
    by (simp add: get_research_by_thread_id_def split: sum.splits extraction.splits)
qed

lemma research_question_assistant:
  assumes "truthy (assistant_id s)"
  shows "assistant_id (snd (research_question eng sid q allow timeout s)) = assistant_id s"
proof -
  obtain r0 s0 where h0: "http eng (GET (LANGGRAPH_API_URL @ ''/docs'')) s = (r0, s0)"
    by (cases "http eng (GET (LANGGRAPH_API_URL @ ''/docs'')) s")
  note a0 = http_assistant [OF h0]
  with assms have g: "get_assistant eng s0 = (assistant_id s, s0)"
    by (simp add: get_assistant_cached)
  obtain tid s2 where c: "create_thread eng s0 = (tid, s2)"
    by (cases "create_thread eng s0")
  from create_thread_assistant [of eng s0] c a0 have a2: "assistant_id s2 = assistant_id s" by simp
  obtain r3 s3 where h3: "http eng (POST (runs_url tid) (run_payload (assistant_id s) q allow)) s2 = (r3, s3)"
    by (cases "http eng (POST (runs_url tid) (run_payload (assistant_id s) q allow)) s2")
  from http_assistant [OF h3] a2 have a3: "assistant_id s3 = assistant_id s" by simp
  show ?thesis
    using assms h0 a0 g c a2 h3 a3
    by (simp add: research_question_def wait_for_research_completion_def wait_loop_assistant
        split: sum.splits)
qed

text \<open>
  Claim C8. Once \<^verbatim>\<open>get_assistant\<close> has returned an identifier that the code counts as
  present (a truthy value, as tested by \<^verbatim>\<open>if assistant_id:\<close> and \<^verbatim>\<open>if not assistant:\<close>), the
  cache holds that identifier; every later call, in any state with that cache and against
  any engine, returns it and leaves the state as it is (no request is logged); and
  \<^verbatim>\<open>research_question\<close> and \<^verbatim>\<open>get_research_by_thread_id\<close> leave the cache as it is.
\<close>

theorem assistant_cached_for_good:
  assumes "get_assistant eng s = (a, s1)" and "truthy a"
  shows "assistant_id s1 = a \<and>
         (\<forall>eng' s2. assistant_id s2 = a \<longrightarrow>
            get_assistant eng' s2 = (a, s2) \<and>
            assistant_id (snd (research_question eng' sid q allow timeout s2)) = a \<and>
            assistant_id (snd (get_research_by_thread_id eng' t s2)) = a)"
  using get_assistant_stores [OF assms] assms(2)
  by (auto simp: get_assistant_cached research_question_assistant recovery_assistant)


theorem assistant_cached_for_good_witness:
  "fst (get_assistant research_engine fresh_world) = JStr ''asst-1'' \<and>
   assistant_id (snd (get_assistant research_engine fresh_world)) = JStr ''asst-1'' \<and>
   get_assistant refusing_engine (snd (get_assistant research_engine fresh_world))
     = (JStr ''asst-1'', snd (get_assistant research_engine fresh_world))"
proof -
  have a: "fst (get_assistant research_engine fresh_world) = JStr ''asst-1''"
    by code_simp
  then have t: "truthy (fst (get_assistant research_engine fresh_world))" by simp
  note th = assistant_cached_for_good [OF surjective_pairing t]
  from th [THEN conjunct1] th [THEN conjunct2, rule_format,
      of "snd (get_assistant research_engine fresh_world)" refusing_engine] a
  show ?thesis by simp
qed

section \<open>Failure messages of \<^verbatim>\<open>research_question\<close>\<close>

text \<open>
  The texts of lines 116, 119, 125, 128 and 200 hold the thread id.
\<close>

lemma str_contains_suffix: "str_contains x (a @ x)"
  using str_contains_mid [of x a "[]"] by simp

lemma failure_messages_name_thread:
  "str_contains (py_str tid) (render (NoResultsFound tid))"
  "str_contains (py_str tid) (render (RunFailed st tid))"
  "str_contains (py_str tid) (render (ErrorDuringResearch e tid))"
  "str_contains (py_str tid) (render (TimedOut timeout tid))"
  "str_contains (py_str tid) (render (ResearchError e tid))"
proof -
  have "render (NoResultsFound tid) =
      (CROSS @ '' Research completed but no results found. Thread ID: '') @ py_str tid"
    by simp
  then show "str_contains (py_str tid) (render (NoResultsFound tid))"
    by (simp only: str_contains_suffix)
  have "render (RunFailed st tid) =
      (CROSS @ '' Research failed with status: '' @ py_str st @ ''. Thread ID: '') @ py_str tid @
      '' (you can try to recover results later)''"
    by simp
  then show "str_contains (py_str tid) (render (RunFailed st tid))"
    by (simp only: str_contains_mid)
  have "render (ErrorDuringResearch e tid) =
      (CROSS @ '' Error during research: '' @ str_exn e @ ''. Thread ID: '') @ py_str tid"
    by simp
  then show "str_contains (py_str tid) (render (ErrorDuringResearch e tid))"
    by (simp only: str_contains_suffix)
  have "render (TimedOut timeout tid) =
      (ALARM @ '' Research timed out after '' @ str_int timeout @ '' seconds. Thread ID: '') @
      py_str tid @
      (NL @ NL @ ''The research may still be running. Use `get_research_by_thread_id('' @ SQ @
       py_str tid @ SQ @ '')` to check for results later.'')"
    by simp
  then show "str_contains (py_str tid) (render (TimedOut timeout tid))"
    by (simp only: str_contains_mid)
  have "render (ResearchError e tid) =
      (CROSS @ '' Research error: '' @ str_exn e @ ''. Thread ID: '') @ py_str tid"
    by simp
  then show "str_contains (py_str tid) (render (ResearchError e tid))"
    by (simp only: str_contains_suffix)
qed

text \<open>
  Claim C7. The run submission is answered with status 500 after the thread \<^verbatim>\<open>t1\<close> was
  created (the log of requests shows the thread creation and the submission to that thread).
  The tool returns the text of line 183, which holds neither the thread id nor the session
  id, while the sibling failure of line 200 and the docstring of the tool give the thread id.
\<close>

theorem failed_submission_message:
  "fst (research_question failing_submit_engine ''abc12345'' ''What is the capital of France?'' True 720
         fresh_world)
     = StartFailed ''Internal Server Error'' \<and>
   calls (snd (research_question failing_submit_engine ''abc12345'' ''What is the capital of France?''
         True 720 fresh_world))
     = [GET ''http://localhost:2024/docs'',
        POST ''http://localhost:2024/assistants/search'' (JObj []),
        POST ''http://localhost:2024/threads'' (JObj []),
        POST ''http://localhost:2024/threads/t1/runs''
          (run_payload (JStr ''asst-1'') ''What is the capital of France?'' True)] \<and>
   render (StartFailed ''Internal Server Error'')
     = CROSS @ '' Failed to start research: Internal Server Error'' \<and>
   \<not> str_contains ''t1'' (render (StartFailed ''Internal Server Error'')) \<and>
   \<not> str_contains ''abc12345'' (render (StartFailed ''Internal Server Error''))"
proof (intro conjI)
  show "fst (research_question failing_submit_engine ''abc12345'' ''What is the capital of France?'' True 720
         fresh_world)
     = StartFailed ''Internal Server Error''"
    by code_simp
  show "calls (snd (research_question failing_submit_engine ''abc12345'' ''What is the capital of France?''
         True 720 fresh_world))
     = [GET ''http://localhost:2024/docs'',
        POST ''http://localhost:2024/assistants/search'' (JObj []),
        POST ''http://localhost:2024/threads'' (JObj []),
        POST ''http://localhost:2024/threads/t1/runs''
          (run_payload (JStr ''asst-1'') ''What is the capital of France?'' True)]"
    by code_simp
  show "render (StartFailed ''Internal Server Error'')
     = CROSS @ '' Failed to start research: Internal Server Error''"
    by simp
  show "\<not> str_contains ''t1'' (render (StartFailed ''Internal Server Error''))"
    by code_simp
  show "\<not> str_contains ''abc12345'' (render (StartFailed ''Internal Server Error''))"
    by code_simp
qed


section \<open>The registry when research is started\<close>











end
